theory Spec2Isabelle
  imports Complex_Main "HOL-Library.AList"
begin

section \<open>Conventions of the embedding\<close>

text \<open>
  The embedding follows the TypeScript sources of the trading engine.

  \<^item> A JavaScript \<open>number\<close> that carries a price, a size or an amount of cash is a
    \<open>real\<close>: arithmetic is exact, so rounding of IEEE doubles, \<open>NaN\<close> and the infinities
    are outside the model. Millisecond time stamps (\<open>Date.now()\<close>) are \<open>int\<close>; counters
    that only start at 0 and increment are \<open>nat\<close>.
  \<^item> Every function that reads the clock takes the instant \<open>now\<close> as an argument; one call of
    an operation sees one instant.
  \<^item> A \<open>Map\<close> whose iteration order the code depends on is an association list in insertion
    order (\<open>AList.update\<close> overwrites in place or appends, as \<open>Map.set\<close> does;
    \<open>AList.delete\<close> is \<open>Map.delete\<close>). A \<open>Set\<close> of strings is a \<open>string set\<close>.
  \<^item> An optional field or argument (\<open>x?: T\<close>) is a \<open>T option\<close>.
  \<^item> Only the paper-mode branches (\<open>CONFIG.PAPER_TRADE\<close> true) of the execution gateway are
    modelled; the live branches call the venue.
  \<^item> Console output is not modelled.
  \<^item> Record fields carry a prefix naming their interface (\<open>o_\<close> for \<open>Order\<close>, \<open>p_\<close> for
    \<open>Position\<close>, \<open>r_\<close> for \<open>TradeRecord\<close>), since \<open>id\<close>, \<open>size\<close> and the shared field names
    would clash.
\<close>

section \<open>Execution gateway (src/execution.ts), paper mode\<close>

datatype OrderSide = BUY | SELL

datatype OrderType = GTC | GTD | FOK | FAK

record Order =
  o_id :: string
  o_tokenId :: string
  o_side :: OrderSide
  o_price :: real
  o_size :: real
  o_timestamp :: int

record Position =
  p_tokenId :: string
  p_shares :: real
  p_entryPrice :: real
  p_entryTime :: int

record ExecutionGateway =
  paperCash :: real
  paperPositions :: "string \<rightharpoonup> Position"
  paperOrders :: "(string \<times> Order) list"
  filledPaperOrders :: "string set"
  paperOrderCounter :: nat
  isExecutingTrade :: bool

text \<open>The constructor: cash is \<open>CONFIG.BANKROLL\<close>, everything else empty.\<close>

definition newExecutionGateway :: "real \<Rightarrow> ExecutionGateway" where
  "newExecutionGateway bankroll =
     \<lparr> paperCash = bankroll, paperPositions = Map.empty, paperOrders = [],
       filledPaperOrders = {}, paperOrderCounter = 0, isExecutingTrade = False \<rparr>"

subsection \<open>Order identifiers\<close>

text \<open>
  Template literals such as \<open>`PAPER_${this.paperOrderCounter++}`\<close> print the counter in
  decimal.
\<close>

definition digitChar :: "nat \<Rightarrow> char" where
  "digitChar d = ''0123456789'' ! d"

function showNat :: "nat \<Rightarrow> string" where
  "showNat n = (if n < 10 then [digitChar n] else showNat (n div 10) @ [digitChar (n mod 10)])"
  by pat_completeness auto
termination
  by (relation "measure id") auto

declare showNat.simps [simp del]

subsection \<open>placePaperOrder, cancelPaperOrder\<close>

definition placePaperOrder ::
  "string \<Rightarrow> OrderSide \<Rightarrow> real \<Rightarrow> real \<Rightarrow> OrderType \<Rightarrow> int \<Rightarrow> ExecutionGateway
    \<Rightarrow> string \<times> ExecutionGateway" where
  "placePaperOrder tokenId side price sz type now g =
     (let orderId = ''PAPER_'' @ showNat (paperOrderCounter g);
          order = \<lparr> o_id = orderId, o_tokenId = tokenId, o_side = side, o_price = price,
                    o_size = sz, o_timestamp = now \<rparr>
      in (orderId,
          g\<lparr> paperOrderCounter := paperOrderCounter g + 1,
             paperOrders := AList.update orderId order (paperOrders g) \<rparr>))"

definition cancelPaperOrder :: "string \<Rightarrow> ExecutionGateway \<Rightarrow> bool \<times> ExecutionGateway" where
  "cancelPaperOrder orderId g =
     (if orderId \<in> fst ` set (paperOrders g)
      then (True, g\<lparr> paperOrders := AList.delete orderId (paperOrders g) \<rparr>)
      else (False, g))"

subsection \<open>executePaperFAK\<close>

definition executePaperFAK ::
  "string \<Rightarrow> OrderSide \<Rightarrow> real \<Rightarrow> real \<Rightarrow> int \<Rightarrow> ExecutionGateway \<Rightarrow> bool \<times> ExecutionGateway" where
  "executePaperFAK tokenId side price sz now g =
     (case side of
        BUY \<Rightarrow>
          (let cost = price * sz in
           if paperCash g \<ge> cost then
             (let g1 = g\<lparr> paperCash := paperCash g - cost \<rparr> in
              case paperPositions g1 tokenId of
                Some existing \<Rightarrow>
                  (let totalShares = p_shares existing + sz;
                       avgPrice = ((p_entryPrice existing * p_shares existing) + (price * sz))
                                  / totalShares
                   in (True, g1\<lparr> paperPositions := (paperPositions g1)(tokenId \<mapsto>
                         \<lparr> p_tokenId = tokenId, p_shares = totalShares,
                           p_entryPrice = avgPrice, p_entryTime = now \<rparr>) \<rparr>))
              | None \<Rightarrow>
                  (True, g1\<lparr> paperPositions := (paperPositions g1)(tokenId \<mapsto>
                         \<lparr> p_tokenId = tokenId, p_shares = sz,
                           p_entryPrice = price, p_entryTime = now \<rparr>) \<rparr>))
           else (False, g))
      | SELL \<Rightarrow>
          (case paperPositions g tokenId of
             Some position \<Rightarrow>
               if p_shares position \<ge> sz then
                 (let proceeds = price * sz;
                      g1 = g\<lparr> paperCash := paperCash g + proceeds \<rparr>
                  in if p_shares position - sz < 0.000001
                     then (True, g1\<lparr> paperPositions := (paperPositions g1)(tokenId := None) \<rparr>)
                     else (True, g1\<lparr> paperPositions := (paperPositions g1)(tokenId \<mapsto>
                             position\<lparr> p_shares := p_shares position - sz \<rparr>) \<rparr>))
               else (False, g)
           | None \<Rightarrow> (False, g)))"

subsection \<open>placeFOKOrder\<close>

datatype GatewayError = TradeInProgress | FOKFailed

text \<open>\<open>price || 0.5\<close>: an absent or zero price is replaced by 0.5.\<close>

definition priceOrHalf :: "real option \<Rightarrow> real" where
  "priceOrHalf price = (case price of None \<Rightarrow> 0.5 | Some p \<Rightarrow> if p = 0 then 0.5 else p)"

text \<open>
  A thrown \<open>Error\<close> is \<open>Inl\<close>. The first \<open>throw\<close> stands before the \<open>try\<close>, so the
  \<open>finally\<close> block does not run for it.
\<close>

definition placeFOKOrder ::
  "string \<Rightarrow> OrderSide \<Rightarrow> real \<Rightarrow> real option \<Rightarrow> int \<Rightarrow> ExecutionGateway
    \<Rightarrow> (GatewayError + string) \<times> ExecutionGateway" where
  "placeFOKOrder tokenId side amount price now g =
     (if isExecutingTrade g then (Inl TradeInProgress, g)
      else
        (let g0 = g\<lparr> isExecutingTrade := True \<rparr>;
             sz = (if side = BUY then amount / priceOrHalf price else amount);
             (executed, g1) = executePaperFAK tokenId side (priceOrHalf price) sz now g0
         in if executed then
              (let orderId = ''PAPER_FOK_'' @ showNat (paperOrderCounter g1);
                   g2 = g1\<lparr> paperOrderCounter := paperOrderCounter g1 + 1 \<rparr>;
                   g3 = g2\<lparr> filledPaperOrders := insert orderId (filledPaperOrders g2) \<rparr>
               in (Inr orderId, g3\<lparr> isExecutingTrade := False \<rparr>))
            else (Inl FOKFailed, g1\<lparr> isExecutingTrade := False \<rparr>)))"

subsection \<open>checkPaperFills\<close>

text \<open>
  The two fill branches of the loop body. Each ends in the common tail
  \<open>if (filled) { filledPaperOrders.add; paperOrders.delete; return ... }\<close>.
\<close>

definition markFilled :: "string \<Rightarrow> ExecutionGateway \<Rightarrow> ExecutionGateway" where
  "markFilled orderId g =
     g\<lparr> filledPaperOrders := insert orderId (filledPaperOrders g),
        paperOrders := AList.delete orderId (paperOrders g) \<rparr>"

definition fillBuy :: "string \<Rightarrow> real \<Rightarrow> Order \<Rightarrow> int \<Rightarrow> ExecutionGateway \<Rightarrow> ExecutionGateway" where
  "fillBuy tokenId currentBestAsk order now g =
     (let fillPrice = min currentBestAsk (o_price order);
          cost = fillPrice * o_size order;
          g1 = g\<lparr> paperCash := paperCash g - cost \<rparr>
      in case paperPositions g1 tokenId of
           Some existing \<Rightarrow>
             (let totalShares = p_shares existing + o_size order;
                  avgPrice = ((p_entryPrice existing * p_shares existing)
                               + (fillPrice * o_size order)) / totalShares
              in g1\<lparr> paperPositions := (paperPositions g1)(tokenId \<mapsto>
                      \<lparr> p_tokenId = o_tokenId order, p_shares = totalShares,
                        p_entryPrice = avgPrice, p_entryTime = now \<rparr>) \<rparr>)
         | None \<Rightarrow>
             g1\<lparr> paperPositions := (paperPositions g1)(tokenId \<mapsto>
                      \<lparr> p_tokenId = o_tokenId order, p_shares = o_size order,
                        p_entryPrice = fillPrice, p_entryTime = now \<rparr>) \<rparr>)"

definition fillSell :: "string \<Rightarrow> real \<Rightarrow> Order \<Rightarrow> ExecutionGateway \<Rightarrow> ExecutionGateway" where
  "fillSell tokenId currentBestBid order g =
     (let fillPrice = max currentBestBid (o_price order);
          proceeds = fillPrice * o_size order;
          g1 = g\<lparr> paperCash := paperCash g + proceeds \<rparr>
      in case paperPositions g1 tokenId of
           Some position \<Rightarrow>
             if p_shares position \<le> o_size order
             then g1\<lparr> paperPositions := (paperPositions g1)(tokenId := None) \<rparr>
             else g1\<lparr> paperPositions := (paperPositions g1)(tokenId \<mapsto>
                      position\<lparr> p_shares := p_shares position - o_size order \<rparr>) \<rparr>
         | None \<Rightarrow> g1)"

text \<open>
  The \<open>for (const [orderId, order] of this.paperOrders.entries())\<close> loop, as a recursion
  over the entries in insertion order. The only entry the body deletes is the current one,
  so the entries still to visit are the tail of the list. The function returns at the first
  fill.
\<close>

fun checkPaperFillsLoop ::
  "string \<Rightarrow> real \<Rightarrow> real \<Rightarrow> int \<Rightarrow> (string \<times> Order) list \<Rightarrow> ExecutionGateway
    \<Rightarrow> Position option \<times> ExecutionGateway" where
  "checkPaperFillsLoop tokenId currentBestAsk currentBestBid now [] g = (None, g)"
| "checkPaperFillsLoop tokenId currentBestAsk currentBestBid now ((orderId, order) # rest) g =
     (if o_tokenId order \<noteq> tokenId
      then checkPaperFillsLoop tokenId currentBestAsk currentBestBid now rest g
      else if orderId \<in> filledPaperOrders g
      then checkPaperFillsLoop tokenId currentBestAsk currentBestBid now rest
             (g\<lparr> paperOrders := AList.delete orderId (paperOrders g) \<rparr>)
      else if o_side order = BUY \<and> currentBestAsk > 0 \<and> currentBestAsk \<le> o_price order
      then (let g' = markFilled orderId (fillBuy tokenId currentBestAsk order now g)
            in (paperPositions g' tokenId, g'))
      else if o_side order = SELL \<and> currentBestBid > 0 \<and> currentBestBid \<ge> o_price order
      then (let g' = markFilled orderId (fillSell tokenId currentBestBid order g)
            in (paperPositions g' tokenId, g'))
      else checkPaperFillsLoop tokenId currentBestAsk currentBestBid now rest g)"

definition checkPaperFills ::
  "string \<Rightarrow> real \<Rightarrow> real \<Rightarrow> int \<Rightarrow> ExecutionGateway \<Rightarrow> Position option \<times> ExecutionGateway" where
  "checkPaperFills tokenId currentBestAsk currentBestBid now g =
     checkPaperFillsLoop tokenId currentBestAsk currentBestBid now (paperOrders g) g"

subsection \<open>isOrderFilled, getPaperCash, clearAllState\<close>

definition isOrderFilled :: "string \<Rightarrow> ExecutionGateway \<Rightarrow> bool" where
  "isOrderFilled orderId g = (orderId \<in> filledPaperOrders g)"

definition getPaperCash :: "ExecutionGateway \<Rightarrow> real" where
  "getPaperCash g = paperCash g"

definition clearAllState :: "ExecutionGateway \<Rightarrow> ExecutionGateway" where
  "clearAllState g =
     g\<lparr> paperOrders := [], paperPositions := Map.empty, filledPaperOrders := {},
        isExecutingTrade := False \<rparr>"

text \<open>\<open>resetPaperCash(initialAmount)\<close>; the default argument 20.00 is the caller's to pass.\<close>

definition resetPaperCash :: "real \<Rightarrow> ExecutionGateway \<Rightarrow> ExecutionGateway" where
  "resetPaperCash initialAmount g = g\<lparr> paperCash := initialAmount \<rparr>"

section \<open>Configuration (config.ts)\<close>

text \<open>
  \<open>BotConfig\<close> with the fields that the modelled code and \<open>validateConfig\<close> read. Left out:
  \<open>POLYGON_RPC_URL\<close>, the three \<open>CLOB_\<close> credentials, \<open>MANUAL_STRIKE_PRICE\<close>,
  \<open>BASE_RISK_PREMIUM\<close>, \<open>MAX_TOLERABLE_STOP\<close>, \<open>STOP_LOSS_SPREAD_MULTIPLIER\<close>,
  \<open>MIN_STOP_DISTANCE\<close>, \<open>MIN_TREND_DELTA\<close>, \<open>MAX_SPREAD\<close>, \<open>SNIPE_CUSHION\<close>, \<open>DUMP_CUSHION\<close>,
  \<open>SNIPE_WAIT_TIME\<close>, \<open>MARKET_EXPIRY_TIMESTAMP\<close> and \<open>TICK_INTERVAL\<close>.
\<close>

record BotConfig =
  PAPER_TRADE :: bool
  HEDGE_ARBITRAGE_MODE :: bool
  HEDGE_ENTRY_PRICE :: real
  SIGNER_PRIVATE_KEY :: string
  PROXY_ADDRESS :: string
  AUTO_DISCOVER_MARKETS :: bool
  MARKET_ROTATION_THRESHOLD :: int
  TOKEN_ID_UP :: string
  TOKEN_ID_DOWN :: string
  STRIKE_PRICE :: real
  BANKROLL :: real
  TRADE_SIZE_PCT :: real
  MAX_CAPITAL_PER_TRADE :: real
  MIN_ORDER_SIZE :: real
  MIN_ENTRY_PRICE :: real
  MAX_ENTRY_PRICE :: real
  MAX_ALLOWED_SPREAD :: real
  FIXED_PROFIT_TARGET :: real
  FIXED_STOP_LOSS :: real
  BREAKEVEN_TRIGGER :: real
  STABILITY_TICKS_REQUIRED :: int
  MIN_COOLDOWN_MS :: int
  MIN_TRADE_INTERVAL_MS :: int
  SESSION_PROFIT_TARGET :: real
  SESSION_LOSS_LIMIT :: real
  TREND_LOOKBACK_TICKS :: int
  PANIC_DISCOUNT :: real
  SCALP_PROFIT :: real
  STOP_LOSS_THRESHOLD :: real

text \<open>
  \<open>process.env\<close> is a map from names to strings. \<open>process.env.X || d\<close> is \<open>d\<close> when the variable
  is absent or the empty string.
\<close>

type_synonym Env = "string \<rightharpoonup> string"

definition envOr :: "Env \<Rightarrow> string \<Rightarrow> string \<Rightarrow> string" where
  "envOr env name d = (case env name of None \<Rightarrow> d | Some v \<Rightarrow> if v = [] then d else v)"

definition ZERO_KEY :: string where
  "ZERO_KEY = ''0x0000000000000000000000000000000000000000000000000000000000000000''"

definition ZERO_ADDRESS :: string where
  "ZERO_ADDRESS = ''0x0000000000000000000000000000000000000000''"

text \<open>
  \<open>loadConfig\<close>. JavaScript's \<open>parseFloat\<close> and \<open>parseInt\<close> are parameters: no theorem below
  depends on how a number is read from a string.
\<close>

definition loadConfig :: "(string \<Rightarrow> real) \<Rightarrow> (string \<Rightarrow> int) \<Rightarrow> Env \<Rightarrow> BotConfig" where
  "loadConfig parseFloat parseInt env =
     (let hedgeMode = (env ''HEDGE_ARBITRAGE_MODE'' = Some ''true'') in
      \<lparr> PAPER_TRADE = (env ''PAPER_TRADE'' = Some ''true''),
        HEDGE_ARBITRAGE_MODE = (env ''HEDGE_ARBITRAGE_MODE'' = Some ''true''),
        HEDGE_ENTRY_PRICE = parseFloat (envOr env ''HEDGE_ENTRY_PRICE'' ''0.49''),
        SIGNER_PRIVATE_KEY = envOr env ''SIGNER_PRIVATE_KEY'' ZERO_KEY,
        PROXY_ADDRESS = envOr env ''PROXY_ADDRESS'' ZERO_ADDRESS,
        AUTO_DISCOVER_MARKETS = (env ''AUTO_DISCOVER_MARKETS'' \<noteq> Some ''false''),
        MARKET_ROTATION_THRESHOLD =
          parseInt (envOr env ''MARKET_ROTATION_THRESHOLD'' (if hedgeMode then ''0'' else ''30'')),
        TOKEN_ID_UP = envOr env ''TOKEN_ID_UP'' '''',
        TOKEN_ID_DOWN = envOr env ''TOKEN_ID_DOWN'' '''',
        STRIKE_PRICE = parseFloat (envOr env ''STRIKE_PRICE'' ''0''),
        BANKROLL = parseFloat (envOr env ''BANKROLL'' ''20.00''),
        TRADE_SIZE_PCT = parseFloat (envOr env ''TRADE_SIZE_PCT'' ''0.10''),
        MAX_CAPITAL_PER_TRADE = parseFloat (envOr env ''MAX_CAPITAL_PER_TRADE'' ''20.00''),
        MIN_ORDER_SIZE = parseFloat (envOr env ''MIN_ORDER_SIZE'' ''1.00''),
        MIN_ENTRY_PRICE = parseFloat (envOr env ''MIN_ENTRY_PRICE'' ''0.65''),
        MAX_ENTRY_PRICE = parseFloat (envOr env ''MAX_ENTRY_PRICE'' ''0.85''),
        MAX_ALLOWED_SPREAD = parseFloat (envOr env ''MAX_ALLOWED_SPREAD'' ''0.03''),
        FIXED_PROFIT_TARGET = parseFloat (envOr env ''FIXED_PROFIT_TARGET'' ''0.02''),
        FIXED_STOP_LOSS = parseFloat (envOr env ''FIXED_STOP_LOSS'' ''0.04''),
        BREAKEVEN_TRIGGER = parseFloat (envOr env ''BREAKEVEN_TRIGGER'' ''0.015''),
        STABILITY_TICKS_REQUIRED = parseInt (envOr env ''STABILITY_TICKS_REQUIRED'' ''15''),
        MIN_COOLDOWN_MS = parseInt (envOr env ''MIN_COOLDOWN_MS'' ''15000''),
        MIN_TRADE_INTERVAL_MS = parseInt (envOr env ''MIN_TRADE_INTERVAL_MS'' ''5000''),
        SESSION_PROFIT_TARGET = parseFloat (envOr env ''SESSION_PROFIT_TARGET'' ''0.50''),
        SESSION_LOSS_LIMIT = parseFloat (envOr env ''SESSION_LOSS_LIMIT'' ''0.40''),
        TREND_LOOKBACK_TICKS = parseInt (envOr env ''TREND_LOOKBACK_TICKS'' ''5''),
        PANIC_DISCOUNT = parseFloat (envOr env ''PANIC_DISCOUNT'' ''0.08''),
        SCALP_PROFIT = parseFloat (envOr env ''SCALP_PROFIT'' ''0.01''),
        STOP_LOSS_THRESHOLD = parseFloat (envOr env ''STOP_LOSS_THRESHOLD'' ''0.10'') \<rparr>)"

text \<open>
  \<open>validateConfig\<close> collects error messages and throws when there is one; the module then
  logs the error and calls \<open>process.exit(1)\<close>. The model returns the list of messages.
\<close>

definition validateConfig :: "BotConfig \<Rightarrow> string list" where
  "validateConfig config =
     (let minRotation = (if HEDGE_ARBITRAGE_MODE config then 0 else 10 :: nat) in
      (if \<not> PAPER_TRADE config then
         (if SIGNER_PRIVATE_KEY config = ZERO_KEY
          then [''SIGNER_PRIVATE_KEY is required for live trading''] else []) @
         (if PROXY_ADDRESS config = ZERO_ADDRESS
          then [''PROXY_ADDRESS is required for live trading''] else [])
       else []) @
      (if \<not> AUTO_DISCOVER_MARKETS config then
         (if TOKEN_ID_UP config = ''''
          then [''TOKEN_ID_UP must be set when AUTO_DISCOVER_MARKETS is disabled''] else []) @
         (if TOKEN_ID_DOWN config = ''''
          then [''TOKEN_ID_DOWN must be set when AUTO_DISCOVER_MARKETS is disabled''] else []) @
         (if STRIKE_PRICE config \<le> 0
          then [''STRIKE_PRICE must be positive when AUTO_DISCOVER_MARKETS is disabled''] else [])
       else []) @
      (if MAX_CAPITAL_PER_TRADE config \<le> 0
       then [''MAX_CAPITAL_PER_TRADE must be positive''] else []) @
      (if PANIC_DISCOUNT config < 0 \<or> PANIC_DISCOUNT config > 1
       then [''PANIC_DISCOUNT must be between 0 and 1''] else []) @
      (if SCALP_PROFIT config < 0 \<or> SCALP_PROFIT config > 1
       then [''SCALP_PROFIT must be between 0 and 1''] else []) @
      (if STOP_LOSS_THRESHOLD config < 0 \<or> STOP_LOSS_THRESHOLD config > 1
       then [''STOP_LOSS_THRESHOLD must be between 0 and 1''] else []) @
      (if MARKET_ROTATION_THRESHOLD config < int minRotation
          \<or> MARKET_ROTATION_THRESHOLD config > 300
       then [''MARKET_ROTATION_THRESHOLD must be between '' @ showNat minRotation
             @ '' and 300 seconds''] else []) @
      (if HEDGE_ARBITRAGE_MODE config then
         (if \<not> PAPER_TRADE config
          then [''HEDGE_ARBITRAGE_MODE is currently supported only in PAPER_TRADE mode''] else []) @
         (if \<not> (HEDGE_ENTRY_PRICE config > 0 \<and> HEDGE_ENTRY_PRICE config < 1)
          then [''HEDGE_ENTRY_PRICE must be between 0 and 1''] else [])
       else []))"

text \<open>
  The configuration that \<open>loadConfig\<close> yields for the documented defaults with
  \<open>PAPER_TRADE=true\<close>: each number is the value of its fallback literal.
\<close>

definition defaultConfig :: BotConfig where
  "defaultConfig =
     \<lparr> PAPER_TRADE = True, HEDGE_ARBITRAGE_MODE = False, HEDGE_ENTRY_PRICE = 0.49,
       SIGNER_PRIVATE_KEY = ZERO_KEY, PROXY_ADDRESS = ZERO_ADDRESS,
       AUTO_DISCOVER_MARKETS = True, MARKET_ROTATION_THRESHOLD = 30,
       TOKEN_ID_UP = '''', TOKEN_ID_DOWN = '''', STRIKE_PRICE = 0,
       BANKROLL = 20, TRADE_SIZE_PCT = 0.10, MAX_CAPITAL_PER_TRADE = 20, MIN_ORDER_SIZE = 1,
       MIN_ENTRY_PRICE = 0.65, MAX_ENTRY_PRICE = 0.85, MAX_ALLOWED_SPREAD = 0.03,
       FIXED_PROFIT_TARGET = 0.02, FIXED_STOP_LOSS = 0.04, BREAKEVEN_TRIGGER = 0.015,
       STABILITY_TICKS_REQUIRED = 15, MIN_COOLDOWN_MS = 15000, MIN_TRADE_INTERVAL_MS = 5000,
       SESSION_PROFIT_TARGET = 0.50, SESSION_LOSS_LIMIT = 0.40, TREND_LOOKBACK_TICKS = 5,
       PANIC_DISCOUNT = 0.08, SCALP_PROFIT = 0.01, STOP_LOSS_THRESHOLD = 0.10 \<rparr>"

section \<open>Quant engine (src/services/quantEngine.ts)\<close>

record PricePoint =
  pp_price :: real
  pp_timestamp :: int

text \<open>
  The class has one mutable field, \<open>priceHistory\<close>; it is called \<open>q_priceHistory\<close> here, since
  the strategy has a field of the same name.
\<close>

record QuantEngine =
  q_priceHistory :: "PricePoint list"

definition newQuantEngine :: QuantEngine where
  "newQuantEngine = \<lparr> q_priceHistory = [] \<rparr>"

definition MAX_HISTORY_LENGTH :: nat where
  "MAX_HISTORY_LENGTH = 60"

definition updatePrice :: "real \<Rightarrow> int \<Rightarrow> QuantEngine \<Rightarrow> QuantEngine" where
  "updatePrice price now q =
     (let h = q_priceHistory q @ [\<lparr> pp_price = price, pp_timestamp = now \<rparr>]
      in q\<lparr> q_priceHistory := (if length h > MAX_HISTORY_LENGTH then tl h else h) \<rparr>)"

text \<open>
  \<open>getVolatilityPerMinute\<close>: the index loop that collects the changes, the two \<open>reduce\<close>
  calls (left folds from 0), and the guarded sampling rate. The history has at least five
  entries where \<open>last\<close> and \<open>hd\<close> are read.
\<close>

definition getVolatilityPerMinute :: "QuantEngine \<Rightarrow> real" where
  "getVolatilityPerMinute q =
     (let h = q_priceHistory q in
      if length h < 5 then 10.0
      else
        (let changes = map (\<lambda>i. pp_price (h ! i) - pp_price (h ! (i - 1))) [1..<length h];
             meanChange = foldl (\<lambda>a b. a + b) 0 changes / real (length changes);
             variance = foldl (\<lambda>a b. a + (b - meanChange) ^ 2) 0 changes / real (length changes);
             stdDevPerTick = sqrt variance;
             timeSpanSeconds = real_of_int (pp_timestamp (last h) - pp_timestamp (hd h)) / 1000;
             ticksPerMinute = (if timeSpanSeconds > 0
                               then (real (length h) / timeSpanSeconds) * 60 else 60);
             volatilityPerMinute = stdDevPerTick * sqrt ticksPerMinute
         in max 5.0 volatilityPerMinute))"

definition hasMinimumHistory :: "QuantEngine \<Rightarrow> bool" where
  "hasMinimumHistory q = (length (q_priceHistory q) \<ge> 5)"

section \<open>Strategy core (src/strategies/ExpirationConvergenceStrategy.ts)\<close>

subsection \<open>Data\<close>

datatype TokenType = UP | DOWN

datatype TradeStatus = PENDING | FILLED | CANCELLED

datatype ExitType = LIMIT | STOP_LOSS | HOLD_TO_MATURITY | BREAKEVEN

datatype LockReason = PROFIT_TARGET | LOSS_LIMIT

text \<open>
  \<open>TradeRecord\<close> (declared in execution.ts). The last two fields are the properties that the
  strategy attaches to a BUY record through \<open>(record as any)\<close>; \<open>None\<close> is \<open>undefined\<close>.
\<close>

record TradeRecord =
  r_id :: string
  r_timestamp :: int
  r_marketSlug :: string
  r_side :: OrderSide
  r_tokenId :: string
  r_tokenType :: TokenType
  r_price :: real
  r_size :: real
  r_orderId :: string
  r_status :: TradeStatus
  r_pairedWith :: "string option"
  r_exitType :: "ExitType option"
  r_fixedStopDist :: "real option"
  r_breakEvenTriggered :: "bool option"

record CircuitBreakerState =
  isCoolingDown :: bool
  crashLowPrice :: real
  stabilityCounter :: nat
  lastStopLossTime :: int
  crashTokenId :: string
  lastTradeTime :: int

record SessionState =
  sessionPnL :: real
  sessionStartTime :: int
  isSessionLocked :: bool
  lockReason :: "LockReason option"
  tradesThisSession :: nat

record PriceHistoryBuffer =
  upBids :: "real list"
  downBids :: "real list"
  maxSize :: int

text \<open>What the strategy reads of \<open>OrderBookData\<close>, of the tick's prices and of \<open>MarketConfig\<close>.\<close>

record OrderBookData =
  bestAsk :: real
  bestBid :: real

record CurrentPrices =
  upAsk :: real
  upBid :: real
  downAsk :: real
  downBid :: real

record MarketInfo =
  eventSlug :: string
  upTokenId :: string
  downTokenId :: string

text \<open>
  \<open>OrderBookService.getOrderBook\<close> asks the venue. It is a parameter of every operation that
  calls it: a function from the token to the book it answers, \<open>None\<close> when it throws. One call
  of an operation sees one such function.
\<close>

type_synonym OrderBookService = "string \<Rightarrow> OrderBookData option"

text \<open>
  The strategy object. \<open>tradeRecords\<close> is the \<open>Map\<close> from record id to record, in insertion
  order. \<open>activePositions\<close> is a \<open>Map\<close> from the id of a BUY record to that same record object:
  the code stores one object under the same key in both maps, and mutates it through
  either. The model keeps the objects in \<open>tradeRecords\<close> only and holds in \<open>activePositions\<close>
  the keys in insertion order; reading an active position is a lookup of its key in
  \<open>tradeRecords\<close>. The strategy's \<open>priceHistory\<close> buffer is \<open>s_priceHistory\<close>.
\<close>

record Strategy =
  executionGateway :: ExecutionGateway
  quantEngine :: QuantEngine
  tradeRecords :: "(string \<times> TradeRecord) list"
  activePositions :: "string list"
  orderCounter :: nat
  isTradingLocked :: bool
  circuitBreaker :: CircuitBreakerState
  sessionState :: SessionState
  s_priceHistory :: PriceHistoryBuffer

definition newCircuitBreaker :: CircuitBreakerState where
  "newCircuitBreaker =
     \<lparr> isCoolingDown = False, crashLowPrice = 0, stabilityCounter = 0, lastStopLossTime = 0,
       crashTokenId = '''', lastTradeTime = 0 \<rparr>"

definition newSessionState :: "int \<Rightarrow> SessionState" where
  "newSessionState now =
     \<lparr> sessionPnL = 0, sessionStartTime = now, isSessionLocked = False, lockReason = None,
       tradesThisSession = 0 \<rparr>"

definition newPriceHistory :: "BotConfig \<Rightarrow> PriceHistoryBuffer" where
  "newPriceHistory cfg = \<lparr> upBids = [], downBids = [], maxSize = TREND_LOOKBACK_TICKS cfg \<rparr>"

text \<open>The state after the constructors of the gateway and of the strategy.\<close>

definition newStrategy :: "BotConfig \<Rightarrow> int \<Rightarrow> Strategy" where
  "newStrategy cfg now =
     \<lparr> executionGateway = newExecutionGateway (BANKROLL cfg), quantEngine = newQuantEngine,
       tradeRecords = [], activePositions = [], orderCounter = 0, isTradingLocked = False,
       circuitBreaker = newCircuitBreaker, sessionState = newSessionState now,
       s_priceHistory = newPriceHistory cfg \<rparr>"

text \<open>\<open>Map.set\<close> and \<open>Map.delete\<close> on the keys of \<open>activePositions\<close>.\<close>

definition setKey :: "string \<Rightarrow> string list \<Rightarrow> string list" where
  "setKey k ks = (if k \<in> set ks then ks else ks @ [k])"

definition deleteKey :: "string \<Rightarrow> string list \<Rightarrow> string list" where
  "deleteKey k ks = removeAll k ks"

subsection \<open>Safe zone, session P&L, price history\<close>

definition isInKillZone :: "BotConfig \<Rightarrow> real \<Rightarrow> real \<Rightarrow> real \<Rightarrow> real \<Rightarrow> bool" where
  "isInKillZone cfg upAsk' upBid' downAsk' downBid' =
     (let upPrice = (if upAsk' > 0 then upAsk' else upBid');
          downPrice = (if downAsk' > 0 then downAsk' else downBid');
          upInSafeZone = (upPrice \<ge> MIN_ENTRY_PRICE cfg \<and> upPrice \<le> MAX_ENTRY_PRICE cfg);
          downInSafeZone = (downPrice \<ge> MIN_ENTRY_PRICE cfg \<and> downPrice \<le> MAX_ENTRY_PRICE cfg)
      in \<not> upInSafeZone \<and> \<not> downInSafeZone)"

definition updateSessionPnL :: "BotConfig \<Rightarrow> real \<Rightarrow> SessionState \<Rightarrow> SessionState" where
  "updateSessionPnL cfg pnlChange ss =
     (let ss1 = ss\<lparr> sessionPnL := sessionPnL ss + pnlChange,
                    tradesThisSession := tradesThisSession ss + 1 \<rparr>;
          ss2 = (if sessionPnL ss1 \<ge> SESSION_PROFIT_TARGET cfg
                 then ss1\<lparr> isSessionLocked := True, lockReason := Some PROFIT_TARGET \<rparr> else ss1)
      in if sessionPnL ss2 \<le> - SESSION_LOSS_LIMIT cfg
         then ss2\<lparr> isSessionLocked := True, lockReason := Some LOSS_LIMIT \<rparr> else ss2)"

definition pushBounded :: "real \<Rightarrow> int \<Rightarrow> real list \<Rightarrow> real list" where
  "pushBounded x cap xs = (let ys = xs @ [x] in if int (length ys) > cap then tl ys else ys)"

definition updatePriceHistory :: "real \<Rightarrow> real \<Rightarrow> PriceHistoryBuffer \<Rightarrow> PriceHistoryBuffer" where
  "updatePriceHistory upBid' downBid' ph =
     (let ph1 = (if upBid' > 0
                 then ph\<lparr> upBids := pushBounded upBid' (maxSize ph) (upBids ph) \<rparr> else ph)
      in if downBid' > 0
         then ph1\<lparr> downBids := pushBounded downBid' (maxSize ph1) (downBids ph1) \<rparr> else ph1)"

subsection \<open>Circuit breaker\<close>

text \<open>\<open>checkCircuitBreaker\<close> returns whether trading is to be skipped, and the new state.\<close>

definition checkCircuitBreaker ::
  "BotConfig \<Rightarrow> int \<Rightarrow> real \<Rightarrow> CircuitBreakerState \<Rightarrow> bool \<times> CircuitBreakerState" where
  "checkCircuitBreaker cfg now currentBid cb =
     (if \<not> isCoolingDown cb then (False, cb)
      else
        (let timeSinceStopLoss = now - lastStopLossTime cb in
         if timeSinceStopLoss < MIN_COOLDOWN_MS cfg then
           (if currentBid < crashLowPrice cb \<and> currentBid > 0
            then (True, cb\<lparr> crashLowPrice := currentBid, stabilityCounter := 0 \<rparr>)
            else if currentBid > crashLowPrice cb
            then (True, cb\<lparr> stabilityCounter := stabilityCounter cb + 1 \<rparr>)
            else (True, cb))
         else if currentBid < crashLowPrice cb \<and> currentBid > 0
         then (True, cb\<lparr> crashLowPrice := currentBid, stabilityCounter := 0 \<rparr>)
         else
           (let cb1 = (if currentBid > crashLowPrice cb
                       then cb\<lparr> stabilityCounter := stabilityCounter cb + 1 \<rparr> else cb)
            in if int (stabilityCounter cb1) \<ge> STABILITY_TICKS_REQUIRED cfg
               then (False, cb1\<lparr> isCoolingDown := False, stabilityCounter := 0,
                                 crashLowPrice := 0, crashTokenId := '''' \<rparr>)
               else (True, cb1))))"

definition triggerCircuitBreaker ::
  "string \<Rightarrow> real \<Rightarrow> int \<Rightarrow> CircuitBreakerState \<Rightarrow> CircuitBreakerState" where
  "triggerCircuitBreaker tokenId crashPrice now cb =
     cb\<lparr> isCoolingDown := True, crashLowPrice := crashPrice, stabilityCounter := 0,
         lastStopLossTime := now, crashTokenId := tokenId \<rparr>"

subsection \<open>Entry gating\<close>

definition hasPendingTrades :: "Strategy \<Rightarrow> bool" where
  "hasPendingTrades s =
     (if isTradingLocked s then True
      else
        (let records = map snd (tradeRecords s);
             buyOrders = filter (\<lambda>r. r_side r = BUY \<and> r_status r = FILLED) records
         in if list_ex (\<lambda>buy.
                 \<not> list_ex (\<lambda>r. r_pairedWith r = Some (r_id buy) \<and> r_status r = FILLED) records \<and>
                 (list_ex (\<lambda>r. r_pairedWith r = Some (r_id buy) \<and> r_status r = PENDING) records
                  \<or> r_id buy \<in> set (activePositions s))) buyOrders
            then True
            else if length (activePositions s) > 0 then True
            else
              (let availableCash = getPaperCash (executionGateway s);
                   minTradeAmount = availableCash * 0.10
               in if availableCash < minTradeAmount then True else False)))"

record EntryDecision =
  shouldTrade :: bool
  direction :: "TokenType option"

definition doNotTrade :: EntryDecision where
  "doNotTrade = \<lparr> shouldTrade = False, direction = None \<rparr>"

text \<open>
  \<open>shouldEnterTrade\<close> also updates the two price histories, so it returns the new state with
  its decision.
\<close>

definition shouldEnterTrade ::
  "BotConfig \<Rightarrow> int \<Rightarrow> real \<Rightarrow> real \<Rightarrow> real \<Rightarrow> CurrentPrices option \<Rightarrow> Strategy
    \<Rightarrow> EntryDecision \<times> Strategy" where
  "shouldEnterTrade cfg now spotPrice strikePrice timeRemainingSeconds currentPrices s =
     (if isSessionLocked (sessionState s) then (doNotTrade, s)
      else
        (let distance = spotPrice - strikePrice;
             dir = (if distance > 0 then UP else DOWN);
             currentAsk = (case currentPrices of
                             Some p \<Rightarrow> Some (if dir = UP then upAsk p else downAsk p)
                           | None \<Rightarrow> None);
             s1 = (case currentPrices of
                     Some p \<Rightarrow> s\<lparr> s_priceHistory :=
                                  updatePriceHistory (upBid p) (downBid p) (s_priceHistory s) \<rparr>
                   | None \<Rightarrow> s)
         in if (case currentAsk of Some a \<Rightarrow> a > 0 \<and> a < MIN_ENTRY_PRICE cfg | None \<Rightarrow> False)
            then (doNotTrade, s1)
            else if (case currentAsk of Some a \<Rightarrow> a > 0 \<and> a > MAX_ENTRY_PRICE cfg | None \<Rightarrow> False)
            then (doNotTrade, s1)
            else
              (let s2 = s1\<lparr> quantEngine := updatePrice spotPrice now (quantEngine s1) \<rparr>;
                   timeSinceLastTrade = now - lastTradeTime (circuitBreaker s2)
               in if isCoolingDown (circuitBreaker s2) then (doNotTrade, s2)
                  else if lastTradeTime (circuitBreaker s2) > 0
                          \<and> timeSinceLastTrade < MIN_TRADE_INTERVAL_MS cfg
                  then (doNotTrade, s2)
                  else if hasPendingTrades s2 then (doNotTrade, s2)
                  else if timeRemainingSeconds \<le> 150 then (doNotTrade, s2)
                  else (\<lparr> shouldTrade = True, direction = Some dir \<rparr>, s2))))"

subsection \<open>Execution\<close>

text \<open>\<open>Math.round(x * 10000) / 10000\<close>; \<open>Math.round\<close> rounds half up.\<close>

definition round4 :: "real \<Rightarrow> real" where
  "round4 x = real_of_int \<lfloor>x * 10000 + 1 / 2\<rfloor> / 10000"

record TradeResult =
  buyOrderId :: string
  sellOrderId :: string

text \<open>
  The part of \<open>executeTrade\<close> that follows a successful FOK BUY: stamp the trade time, record
  the BUY as FILLED and as an active position, and (when the buy price is below 0.99) place
  the GTC SELL and record it. \<open>s\<close> already holds the gateway as the FOK order left it.
\<close>

definition recordEntry ::
  "BotConfig \<Rightarrow> int \<Rightarrow> MarketInfo \<Rightarrow> string \<Rightarrow> TokenType \<Rightarrow> real \<Rightarrow> real \<Rightarrow> real \<Rightarrow> bool \<Rightarrow> string
    \<Rightarrow> Strategy \<Rightarrow> TradeResult option \<times> Strategy" where
  "recordEntry cfg now marketInfo tokenId dir roundedBuyPrice roundedBuySize cappedSellPrice
               shouldPlaceSell buyOrderId' s =
     (let buyRecord =
            \<lparr> r_id = ''trade_'' @ showNat (orderCounter s),
              r_timestamp = now, r_marketSlug = eventSlug marketInfo,
              r_side = BUY, r_tokenId = tokenId, r_tokenType = dir,
              r_price = roundedBuyPrice, r_size = roundedBuySize,
              r_orderId = buyOrderId', r_status = FILLED,
              r_pairedWith = None, r_exitType = None,
              r_fixedStopDist = Some (FIXED_STOP_LOSS cfg),
              r_breakEvenTriggered = None \<rparr>;
          s2 = s\<lparr> circuitBreaker := (circuitBreaker s)\<lparr> lastTradeTime := now \<rparr>,
                 orderCounter := orderCounter s + 1,
                 tradeRecords := AList.update (r_id buyRecord) buyRecord (tradeRecords s),
                 activePositions := setKey (r_id buyRecord) (activePositions s) \<rparr>
      in if shouldPlaceSell then
           (let (sellOrderId', g2) =
                  placePaperOrder tokenId SELL cappedSellPrice roundedBuySize GTC now
                    (executionGateway s2);
                sellRecord =
                  \<lparr> r_id = ''trade_'' @ showNat (orderCounter s2),
                    r_timestamp = now, r_marketSlug = eventSlug marketInfo,
                    r_side = SELL, r_tokenId = tokenId, r_tokenType = dir,
                    r_price = cappedSellPrice, r_size = roundedBuySize,
                    r_orderId = (if sellOrderId' \<noteq> '''' then sellOrderId'
                                 else ''sell_pending_'' @ showNat (nat now)),
                    r_status = (if sellOrderId' \<noteq> '''' then PENDING else CANCELLED),
                    r_pairedWith = Some (r_id buyRecord), r_exitType = Some LIMIT,
                    r_fixedStopDist = None, r_breakEvenTriggered = None \<rparr>
            in (Some \<lparr> buyOrderId = buyOrderId', sellOrderId = sellOrderId' \<rparr>,
                s2\<lparr> executionGateway := g2,
                    orderCounter := orderCounter s2 + 1,
                    tradeRecords := AList.update (r_id sellRecord) sellRecord (tradeRecords s2) \<rparr>))
         else (Some \<lparr> buyOrderId = buyOrderId', sellOrderId = '''' \<rparr>,
               s2\<lparr> isTradingLocked := False \<rparr>))"

text \<open>
  \<open>executeTrade\<close>: the re-check of the gates, the lock, the book, the spread gate, the size,
  and the FOK BUY. A throw inside its \<open>try\<close> can only come from \<open>getOrderBook\<close> or from
  \<open>placeFOKOrder\<close>; both release the lock and return \<open>null\<close>. The function does not read its
  \<open>spotPrice\<close>, \<open>strikePrice\<close> and \<open>fairValue\<close> arguments; the model leaves them out.
\<close>

definition executeTrade ::
  "BotConfig \<Rightarrow> OrderBookService \<Rightarrow> int \<Rightarrow> MarketInfo \<Rightarrow> TokenType \<Rightarrow> Strategy
    \<Rightarrow> TradeResult option \<times> Strategy" where
  "executeTrade cfg getOrderBook now marketInfo dir s =
     (if hasPendingTrades s then (None, s)
      else if isCoolingDown (circuitBreaker s) then (None, s)
      else
        (let s1 = s\<lparr> isTradingLocked := True \<rparr>;
             tokenId = (if dir = UP then upTokenId marketInfo else downTokenId marketInfo)
         in case getOrderBook tokenId of
              None \<Rightarrow> (None, s1\<lparr> isTradingLocked := False \<rparr>)
            | Some orderBook \<Rightarrow>
               (let buyPrice = bestAsk orderBook;
                    currentBid = bestBid orderBook;
                    spread = buyPrice - currentBid;
                    availableCash = getPaperCash (executionGateway s1);
                    tradeAmount0 = availableCash * TRADE_SIZE_PCT cfg
                in if buyPrice \<le> 0 then (None, s1\<lparr> isTradingLocked := False \<rparr>)
                   else if spread > MAX_ALLOWED_SPREAD cfg
                   then (None, s1\<lparr> isTradingLocked := False \<rparr>)
                   else if tradeAmount0 < MIN_ORDER_SIZE cfg \<and> \<not> availableCash \<ge> MIN_ORDER_SIZE cfg
                   then (None, s1\<lparr> isTradingLocked := False \<rparr>)
                   else
                     (let tradeAmount = (if tradeAmount0 < MIN_ORDER_SIZE cfg
                                         then MIN_ORDER_SIZE cfg else tradeAmount0);
                          buySize = tradeAmount / buyPrice;
                          roundedBuyPrice = round4 buyPrice;
                          roundedBuySize = round4 buySize;
                          finalBuyAmount = roundedBuyPrice * roundedBuySize;
                          shouldPlaceSell = (buyPrice < 0.99);
                          sellPrice = round4 (roundedBuyPrice + FIXED_PROFIT_TARGET cfg);
                          cappedSellPrice = min sellPrice 0.99
                      in case placeFOKOrder tokenId BUY finalBuyAmount (Some roundedBuyPrice) now
                                (executionGateway s1) of
                           (Inl err, g1) \<Rightarrow>
                             (None, s1\<lparr> executionGateway := g1, isTradingLocked := False \<rparr>)
                         | (Inr buyOrderId', g1) \<Rightarrow>
                             if buyOrderId' = ''''
                             then (None, s1\<lparr> executionGateway := g1, isTradingLocked := False \<rparr>)
                             else recordEntry cfg now marketInfo tokenId dir roundedBuyPrice
                                    roundedBuySize cappedSellPrice shouldPlaceSell buyOrderId'
                                    (s1\<lparr> executionGateway := g1 \<rparr>)))))"

subsection \<open>Order status: circuit-breaker check, position monitor, pending records\<close>

text \<open>
  The stop distance read at the top of the monitor's loop body:
  \<open>if ((activePosition as any).fixedStopDist) { stopDistance = ... } else { stopDistance =
  CONFIG.FIXED_STOP_LOSS }\<close>. The condition is JavaScript truthiness: \<open>undefined\<close> and \<open>0\<close> are
  false.
\<close>

definition storedStopDistance :: "BotConfig \<Rightarrow> TradeRecord \<Rightarrow> real" where
  "storedStopDistance cfg activePosition =
     (case r_fixedStopDist activePosition of
        Some d \<Rightarrow> if d \<noteq> 0 then d else FIXED_STOP_LOSS cfg
      | None \<Rightarrow> FIXED_STOP_LOSS cfg)"

text \<open>\<open>(activePosition as any).breakEvenTriggered || false\<close>.\<close>

definition breakEvenFlag :: "TradeRecord \<Rightarrow> bool" where
  "breakEvenFlag activePosition =
     (case r_breakEvenTriggered activePosition of Some b \<Rightarrow> b | None \<Rightarrow> False)"

text \<open>
  \<open>Array.from(this.tradeRecords.values()).find(r => r.pairedWith === id && r.side === 'SELL'
  && r.status === 'PENDING')\<close>, with the key under which the record found is stored.
\<close>

definition findPendingSell :: "string \<Rightarrow> Strategy \<Rightarrow> (string \<times> TradeRecord) option" where
  "findPendingSell buyId s =
     find (\<lambda>(k, r). r_pairedWith r = Some buyId \<and> r_side r = SELL \<and> r_status r = PENDING)
       (tradeRecords s)"

text \<open>
  The exit path of the monitor (the body of \<open>if (currentBid > 0 && currentBid <
  stopLossPrice)\<close>). \<open>breakEvenTriggered\<close> is the flag as read before this evaluation's
  trigger.
\<close>

definition exitPosition ::
  "BotConfig \<Rightarrow> int \<Rightarrow> TradeRecord \<Rightarrow> real \<Rightarrow> bool \<Rightarrow> Strategy \<Rightarrow> Strategy" where
  "exitPosition cfg now activePosition currentBid breakEvenTriggered s =
     (let entryPrice = r_price activePosition;
          isBreakeven = (breakEvenTriggered \<and> currentBid \<ge> entryPrice - 0.005);
          s1 = (case findPendingSell (r_id activePosition) s of
                  Some (k, pendingSell) \<Rightarrow>
                    s\<lparr> executionGateway :=
                         snd (cancelPaperOrder (r_orderId pendingSell) (executionGateway s)),
                       tradeRecords :=
                         AList.update k (pendingSell\<lparr> r_status := CANCELLED \<rparr>) (tradeRecords s) \<rparr>
                | None \<Rightarrow> s);
          exitPrice = max 0.01 (currentBid - 0.02);
          exitSize = r_size activePosition;
          (sold, g2) = executePaperFAK (r_tokenId activePosition) SELL exitPrice exitSize now
                         (executionGateway s1);
          s2 = s1\<lparr> executionGateway := g2 \<rparr>;
          s3 = (if sold then
                  (let stopLossRecord =
                         \<lparr> r_id = ''trade_'' @ showNat (orderCounter s2),
                           r_timestamp = now, r_marketSlug = r_marketSlug activePosition,
                           r_side = SELL, r_tokenId = r_tokenId activePosition,
                           r_tokenType = r_tokenType activePosition,
                           r_price = exitPrice, r_size = exitSize,
                           r_orderId = (if isBreakeven then ''BREAKEVEN'' else ''STOP_LOSS'')
                                       @ ''_'' @ showNat (nat now),
                           r_status = FILLED, r_pairedWith = Some (r_id activePosition),
                           r_exitType = Some (if isBreakeven then BREAKEVEN else STOP_LOSS),
                           r_fixedStopDist = None, r_breakEvenTriggered = None \<rparr>;
                       pnl = (exitPrice - entryPrice) * exitSize
                   in s2\<lparr> orderCounter := orderCounter s2 + 1,
                          tradeRecords :=
                            AList.update (r_id stopLossRecord) stopLossRecord (tradeRecords s2),
                          activePositions :=
                            deleteKey (r_id activePosition) (activePositions s2),
                          sessionState := updateSessionPnL cfg pnl (sessionState s2),
                          circuitBreaker :=
                            (if \<not> isBreakeven
                             then triggerCircuitBreaker (r_tokenId activePosition) currentBid now
                                    (circuitBreaker s2)
                             else circuitBreaker s2) \<rparr>)
                else s2)
      in s3\<lparr> isTradingLocked := False \<rparr>)"

text \<open>The hold-to-maturity check that ends the loop body when no exit was triggered.\<close>

definition holdToMaturityCheck ::
  "real option \<Rightarrow> TradeRecord \<Rightarrow> real \<Rightarrow> Strategy \<Rightarrow> Strategy" where
  "holdToMaturityCheck timeRemainingSeconds activePosition currentBid s =
     (if (case timeRemainingSeconds of Some t \<Rightarrow> t < 45 | None \<Rightarrow> False) \<and> currentBid > 0.94
      then
        (case findPendingSell (r_id activePosition) s of
           Some (k, pendingSell) \<Rightarrow>
             s\<lparr> executionGateway :=
                  snd (cancelPaperOrder (r_orderId pendingSell) (executionGateway s)),
                tradeRecords :=
                  AList.update k (pendingSell\<lparr> r_status := CANCELLED,
                                               r_exitType := Some HOLD_TO_MATURITY \<rparr>)
                    (tradeRecords s),
                isTradingLocked := False \<rparr>
         | None \<Rightarrow> s)
      else s)"

text \<open>
  One pass of the monitor's loop body for the active position stored under \<open>positionId\<close>. A
  throw of \<open>getOrderBook\<close> is caught by the body's \<open>try\<close> and leaves the state as it is.
\<close>

definition monitorPosition ::
  "BotConfig \<Rightarrow> OrderBookService \<Rightarrow> int \<Rightarrow> real option \<Rightarrow> string \<Rightarrow> Strategy \<Rightarrow> Strategy" where
  "monitorPosition cfg getOrderBook now timeRemainingSeconds positionId s =
     (case map_of (tradeRecords s) positionId of
        None \<Rightarrow> s
      | Some activePosition \<Rightarrow>
         (case getOrderBook (r_tokenId activePosition) of
            None \<Rightarrow> s
          | Some orderBook \<Rightarrow>
             (let currentBid = bestBid orderBook;
                  entryPrice = r_price activePosition;
                  stopDistance0 = storedStopDistance cfg activePosition;
                  currentProfit = currentBid - entryPrice;
                  breakEvenTriggered = breakEvenFlag activePosition;
                  trigger = (\<not> breakEvenTriggered \<and> currentProfit \<ge> BREAKEVEN_TRIGGER cfg);
                  s1 = (if trigger
                        then s\<lparr> tradeRecords :=
                                 AList.update positionId
                                   (activePosition\<lparr> r_breakEvenTriggered := Some True,
                                                     r_fixedStopDist := Some 0 \<rparr>)
                                   (tradeRecords s) \<rparr>
                        else s);
                  stopDistance = (if trigger then 0 else stopDistance0);
                  stopLossPrice = entryPrice - stopDistance
              in if currentBid > 0 \<and> currentBid < stopLossPrice
                 then exitPosition cfg now activePosition currentBid breakEvenTriggered s1
                 else holdToMaturityCheck timeRemainingSeconds activePosition currentBid s1)))"

text \<open>
  The last loop of \<open>updateOrderStatus\<close>, for the record stored under \<open>tradeId\<close>: a PENDING
  record whose order the gateway reports filled becomes FILLED.
\<close>

definition settlePending :: "BotConfig \<Rightarrow> string \<Rightarrow> Strategy \<Rightarrow> Strategy" where
  "settlePending cfg tradeId s =
     (case map_of (tradeRecords s) tradeId of
        None \<Rightarrow> s
      | Some record \<Rightarrow>
         if r_status record = PENDING \<and> isOrderFilled (r_orderId record) (executionGateway s)
         then
           (let s1 = s\<lparr> tradeRecords :=
                          AList.update tradeId (record\<lparr> r_status := FILLED \<rparr>) (tradeRecords s) \<rparr>
            in case r_side record of
                 BUY \<Rightarrow> s1\<lparr> activePositions := setKey (r_id record) (activePositions s1) \<rparr>
               | SELL \<Rightarrow>
                  (let s2 = (case r_pairedWith record of
                               None \<Rightarrow> s1
                             | Some pw \<Rightarrow>
                                if pw = '''' then s1
                                else
                                  (let s1' = (case map_of (tradeRecords s1) pw of
                                                Some buyOrder \<Rightarrow>
                                                  s1\<lparr> sessionState :=
                                                       updateSessionPnL cfg
                                                         ((r_price record - r_price buyOrder)
                                                          * r_size record)
                                                         (sessionState s1) \<rparr>
                                              | None \<Rightarrow> s1)
                                   in s1'\<lparr> activePositions :=
                                            deleteKey pw (activePositions s1') \<rparr>))
                   in s2\<lparr> isTradingLocked := False \<rparr>))
         else s)"

text \<open>
  Phase 1 of \<open>updateOrderStatus\<close>: while cooling down, run the circuit-breaker check on the
  crashed token's bid. A throw of \<open>getOrderBook\<close> is caught.
\<close>

definition circuitBreakerPhase :: "BotConfig \<Rightarrow> OrderBookService \<Rightarrow> int \<Rightarrow> Strategy \<Rightarrow> Strategy" where
  "circuitBreakerPhase cfg getOrderBook now s =
     (if isCoolingDown (circuitBreaker s) \<and> crashTokenId (circuitBreaker s) \<noteq> ''''
      then (case getOrderBook (crashTokenId (circuitBreaker s)) of
              Some orderBook \<Rightarrow>
                s\<lparr> circuitBreaker :=
                     snd (checkCircuitBreaker cfg now (bestBid orderBook) (circuitBreaker s)) \<rparr>
            | None \<Rightarrow> s)
      else s)"

text \<open>
  \<open>updateOrderStatus\<close>. With no active position the function returns after phase 1, before
  the other two loops. The monitor runs over the positions active at its start; the last
  loop runs over the records in insertion order.
\<close>

definition updateOrderStatus ::
  "BotConfig \<Rightarrow> OrderBookService \<Rightarrow> int \<Rightarrow> real option \<Rightarrow> Strategy \<Rightarrow> Strategy" where
  "updateOrderStatus cfg getOrderBook now timeRemainingSeconds s =
     (let s1 = circuitBreakerPhase cfg getOrderBook now s;
          activePositionsList = activePositions s1
      in if length activePositionsList = 0 then s1
         else
           (let s2 = fold (monitorPosition cfg getOrderBook now timeRemainingSeconds)
                       activePositionsList s1
            in fold (settlePending cfg) (map fst (tradeRecords s2)) s2))"

subsection \<open>Market rotation\<close>

definition resetForNewMarket :: "BotConfig \<Rightarrow> int \<Rightarrow> Strategy \<Rightarrow> Strategy" where
  "resetForNewMarket cfg now s =
     s\<lparr> activePositions := [],
        tradeRecords := [],
        isTradingLocked := False,
        circuitBreaker := \<lparr> isCoolingDown = False, crashLowPrice = 0, stabilityCounter = 0,
                            lastStopLossTime = 0, crashTokenId = '''', lastTradeTime = 0 \<rparr>,
        sessionState := \<lparr> sessionPnL = 0, sessionStartTime = now, isSessionLocked = False,
                          lockReason = None, tradesThisSession = 0 \<rparr>,
        s_priceHistory := \<lparr> upBids = [], downBids = [], maxSize = TREND_LOOKBACK_TICKS cfg \<rparr>,
        executionGateway := clearAllState (executionGateway s) \<rparr>"

section \<open>Main tick (main.ts), from the paper-fill check on\<close>

text \<open>
  \<open>TradingBot.tick\<close> has two parts. Its head finds the market, reads the spot price and the
  strike, and returns when one of them is missing; when the slug of the market differs from
  the last one seen, it rotates first: an emergency \<open>executeFAK\<close> SELL of an open paper
  position, then \<open>resetForNewMarket\<close>. The head touches the strategy in a rotation only.

  \<open>tickWithinMarket\<close> below is the rest of \<open>TradingBot.tick\<close>, not the whole of it: paper fills
  on both tokens, \<open>updateOrderStatus\<close>, the safe-zone filter, \<open>shouldEnterTrade\<close> and
  \<open>executeTrade\<close>. \<open>prices\<close> is \<open>None\<close> when \<open>getCurrentPrices\<close> threw. Logging and the
  statistics are left out. The strategy is the \<open>ExpirationConvergenceStrategy\<close>
  (\<open>HEDGE_ARBITRAGE_MODE\<close> off).

  So a tick that does not rotate is \<open>tickWithinMarket\<close>, or no step at all when the head
  returns. A tick that rotates is the emergency exit and \<open>resetForNewMarket\<close>, followed by
  \<open>tickWithinMarket\<close> unless the head returns. A statement about \<open>tickWithinMarket\<close> is a
  statement about the ticks that do not rotate.
\<close>

text \<open>The two \<open>checkPaperFills\<close> calls of the tick, on the gateway.\<close>

definition tickPaperFills ::
  "MarketInfo \<Rightarrow> CurrentPrices option \<Rightarrow> int \<Rightarrow> ExecutionGateway \<Rightarrow> ExecutionGateway" where
  "tickPaperFills marketInfo prices now g =
     (case prices of
        Some p \<Rightarrow>
          (let ga = (if upAsk p > 0 \<or> upBid p > 0
                     then snd (checkPaperFills (upTokenId marketInfo) (upAsk p) (upBid p) now g)
                     else g)
           in if downAsk p > 0 \<or> downBid p > 0
              then snd (checkPaperFills (downTokenId marketInfo) (downAsk p) (downBid p) now ga)
              else ga)
      | None \<Rightarrow> g)"

text \<open>The tick up to and including \<open>updateOrderStatus(timeRemainingSeconds)\<close>.\<close>

definition tickStatus ::
  "BotConfig \<Rightarrow> OrderBookService \<Rightarrow> int \<Rightarrow> MarketInfo \<Rightarrow> CurrentPrices option \<Rightarrow> real
    \<Rightarrow> Strategy \<Rightarrow> Strategy" where
  "tickStatus cfg getOrderBook now marketInfo prices timeRemainingSeconds s =
     updateOrderStatus cfg getOrderBook now (Some timeRemainingSeconds)
       (s\<lparr> executionGateway := tickPaperFills marketInfo prices now (executionGateway s) \<rparr>)"

definition tickWithinMarket ::
  "BotConfig \<Rightarrow> OrderBookService \<Rightarrow> int \<Rightarrow> MarketInfo \<Rightarrow> real \<Rightarrow> real \<Rightarrow> CurrentPrices option
    \<Rightarrow> real \<Rightarrow> Strategy \<Rightarrow> Strategy" where
  "tickWithinMarket cfg getOrderBook now marketInfo spotPrice effectiveStrikePrice prices
        timeRemainingSeconds s =
     (let s1 = tickStatus cfg getOrderBook now marketInfo prices timeRemainingSeconds s;
          killZoneActive = (case prices of
                              Some p \<Rightarrow> isInKillZone cfg (upAsk p) (upBid p) (downAsk p) (downBid p)
                            | None \<Rightarrow> False);
          (strategyCheck, s2) = shouldEnterTrade cfg now spotPrice effectiveStrikePrice
                                  timeRemainingSeconds prices s1;
          shouldTradeFinal = (shouldTrade strategyCheck \<and> \<not> killZoneActive)
      in case direction strategyCheck of
           Some dir \<Rightarrow>
             if shouldTradeFinal then snd (executeTrade cfg getOrderBook now marketInfo dir s2)
             else s2
         | None \<Rightarrow> s2)"

section \<open>Proof devices and example states\<close>

text \<open>
  The definitions of this section are not part of the program. They name conditions of the
  code so that theorems can speak about them, and fix the concrete states on which
  theorems are instantiated.
\<close>

subsection \<open>Gateway\<close>

text \<open>
  \<open>orderFills\<close> is the disjunction of the two fill conditions of the loop body of
  \<open>checkPaperFills\<close>; \<open>firstFill\<close> searches the entries for the first order of the token that
  is not in the filled index and meets its fill condition.
\<close>

definition orderFills :: "real \<Rightarrow> real \<Rightarrow> Order \<Rightarrow> bool" where
  "orderFills currentBestAsk currentBestBid order =
     ((o_side order = BUY \<and> currentBestAsk > 0 \<and> currentBestAsk \<le> o_price order) \<or>
      (o_side order = SELL \<and> currentBestBid > 0 \<and> currentBestBid \<ge> o_price order))"

fun firstFill :: "string \<Rightarrow> real \<Rightarrow> real \<Rightarrow> string set \<Rightarrow> (string \<times> Order) list \<Rightarrow> (string \<times> Order) option" where
  "firstFill tokenId ask bid F [] = None"
| "firstFill tokenId ask bid F ((k, order) # rest) =
     (if o_tokenId order = tokenId \<and> k \<notin> F \<and> orderFills ask bid order then Some (k, order)
      else firstFill tokenId ask bid F rest)"

text \<open>
  The gateway states that the public paper-mode operations produce from a fresh gateway.
\<close>

inductive gatewayReachable :: "ExecutionGateway \<Rightarrow> bool" where
  new: "gatewayReachable (newExecutionGateway bankroll)"
| placeLimit: "gatewayReachable g \<Longrightarrow>
     gatewayReachable (snd (placePaperOrder tokenId side price sz type now g))"
| placeFOK: "gatewayReachable g \<Longrightarrow>
     gatewayReachable (snd (placeFOKOrder tokenId side amount price now g))"
| cancel: "gatewayReachable g \<Longrightarrow> gatewayReachable (snd (cancelPaperOrder orderId g))"
| executeFAK: "gatewayReachable g \<Longrightarrow>
     gatewayReachable (snd (executePaperFAK tokenId side price sz now g))"
| checkFills: "gatewayReachable g \<Longrightarrow>
     gatewayReachable (snd (checkPaperFills tokenId currentBestAsk currentBestBid now g))"
| clear: "gatewayReachable g \<Longrightarrow> gatewayReachable (clearAllState g)"
| resetCash: "gatewayReachable g \<Longrightarrow> gatewayReachable (resetPaperCash initialAmount g)"

text \<open>Every key of the open-order map was made by \<open>placePaperOrder\<close>.\<close>

definition limitIds :: "ExecutionGateway \<Rightarrow> bool" where
  "limitIds g = (fst ` set (paperOrders g) \<subseteq> range (\<lambda>n. ''PAPER_'' @ showNat n))"

text \<open>
  Example states: a resting SELL at 0.72 followed by a resting BUY at 0.70, and two resting
  BUYs at 0.70, all of size 2 on one token, placed on a fresh gateway with cash 20.
\<close>

definition twoOrders :: ExecutionGateway where
  "twoOrders = snd (placePaperOrder ''UP'' BUY 0.70 2 GTC 0
                 (snd (placePaperOrder ''UP'' SELL 0.72 2 GTC 0 (newExecutionGateway 20))))"

definition twoBuys :: ExecutionGateway where
  "twoBuys = snd (placePaperOrder ''UP'' BUY 0.70 2 GTC 0
               (snd (placePaperOrder ''UP'' BUY 0.70 2 GTC 0 (newExecutionGateway 20))))"

subsection \<open>Quant engine: the volatility formula in the words of the specification\<close>

text \<open>
  The first differences of the sampled prices, their population standard deviation
  \<open>sqrt (\<Sum>(d - \<mu>)\<^sup>2 / n)\<close>, and the observed span in seconds.
\<close>

definition firstDifferences :: "PricePoint list \<Rightarrow> real list" where
  "firstDifferences h = map (\<lambda>(a, b). pp_price b - pp_price a) (zip h (tl h))"

definition populationStdDev :: "real list \<Rightarrow> real" where
  "populationStdDev ds =
     sqrt (sum_list (map (\<lambda>d. (d - sum_list ds / real (length ds)) ^ 2) ds) / real (length ds))"

definition observedSpanSeconds :: "PricePoint list \<Rightarrow> real" where
  "observedSpanSeconds h = real_of_int (pp_timestamp (last h) - pp_timestamp (hd h)) / 1000"

text \<open>
  The volatility as claim C9 states it: the sampling rate is \<open>(n / span) * 60\<close> for every
  history of five or more samples.
\<close>

definition claimedVolatility :: "PricePoint list \<Rightarrow> real" where
  "claimedVolatility h =
     (if length h < 5 then 10
      else max 5 (populationStdDev (firstDifferences h)
                  * sqrt ((real (length h) / observedSpanSeconds h) * 60)))"

text \<open>Five samples that alternate between 0 and 100 and carry one time stamp.\<close>

definition sameInstantHistory :: "PricePoint list" where
  "sameInstantHistory =
     [\<lparr> pp_price = 0, pp_timestamp = 1000 \<rparr>, \<lparr> pp_price = 100, pp_timestamp = 1000 \<rparr>,
      \<lparr> pp_price = 0, pp_timestamp = 1000 \<rparr>, \<lparr> pp_price = 100, pp_timestamp = 1000 \<rparr>,
      \<lparr> pp_price = 0, pp_timestamp = 1000 \<rparr>]"

subsection \<open>Strategy: ledger views, reachable states, example markets\<close>

text \<open>
  The ids of the FILLED BUY records of a ledger, and the ledgers that hold no PENDING BUY
  record (the strategy records a BUY only after its FOK order was filled).
\<close>

definition isFilledBuy :: "TradeRecord \<Rightarrow> bool" where
  "isFilledBuy r = (r_side r = BUY \<and> r_status r = FILLED)"

definition isPendingBuy :: "TradeRecord \<Rightarrow> bool" where
  "isPendingBuy r = (r_side r = BUY \<and> r_status r = PENDING)"

definition fbIds :: "(string \<times> TradeRecord) list \<Rightarrow> string set" where
  "fbIds recs = fst ` set (filter (\<lambda>(k, r). isFilledBuy r) recs)"

definition filledBuyIds :: "Strategy \<Rightarrow> string set" where
  "filledBuyIds s = fbIds (tradeRecords s)"

definition npb :: "(string \<times> TradeRecord) list \<Rightarrow> bool" where
  "npb recs = (\<not> list_ex (\<lambda>(k, r). isPendingBuy r) recs)"

text \<open>
  A step is quiet when it keeps a ledger without PENDING BUYs such, creates no FILLED BUY
  in it, and does not release an engaged circuit breaker.
\<close>

definition ledgerQuiet :: "(string \<times> TradeRecord) list \<Rightarrow> (string \<times> TradeRecord) list \<Rightarrow> bool" where
  "ledgerQuiet recs recs' = (npb recs \<longrightarrow> npb recs' \<and> fbIds recs' \<subseteq> fbIds recs)"

definition stepQuiet :: "Strategy \<Rightarrow> Strategy \<Rightarrow> bool" where
  "stepQuiet s s' =
     (ledgerQuiet (tradeRecords s) (tradeRecords s') \<and>
      (isCoolingDown (circuitBreaker s) \<longrightarrow> isCoolingDown (circuitBreaker s')))"


text \<open>
  A market with tokens \<open>UP\<close> and \<open>DOWN\<close>, and a book that quotes \<open>UP\<close> at the given ask and
  bid and \<open>DOWN\<close> at the complementary prices.
\<close>

definition marketUpDown :: MarketInfo where
  "marketUpDown = \<lparr> eventSlug = ''btc-updown-15m'', upTokenId = ''UP'', downTokenId = ''DOWN'' \<rparr>"

definition bookAt :: "real \<Rightarrow> real \<Rightarrow> OrderBookService" where
  "bookAt ask bid tokenId =
     (if tokenId = ''UP'' then Some \<lparr> bestAsk = ask, bestBid = bid \<rparr>
      else if tokenId = ''DOWN'' then Some \<lparr> bestAsk = 1 - bid, bestBid = 1 - ask \<rparr>
      else None)"

definition pricesAt :: "real \<Rightarrow> real \<Rightarrow> CurrentPrices" where
  "pricesAt ask bid = \<lparr> upAsk = ask, upBid = bid, downAsk = 1 - bid, downBid = 1 - ask \<rparr>"

text \<open>
  A session on this market with the default configuration. \<open>entryTick\<close>: the first tick, at
  500 ms, with \<open>UP\<close> quoted 0.70 / 0.69 and the spot above the strike; it buys 2.8571 shares at
  0.70 (record \<open>buy070\<close>) and rests a SELL at 0.72 (record \<open>sell072\<close>). \<open>crashTick\<close>: the next
  tick, at 1000 ms, with the bid at 0.65; the monitor sells at 0.63 (record \<open>stop063\<close>) and
  arms the circuit breaker. \<open>coolingRun k\<close>: \<open>k\<close> further ticks, 500 ms apart, with \<open>UP\<close> quoted
  0.70 / 0.69 again. \<open>coolingState\<close> is the shape of the states of that run: all of the state
  but the stability counter and the two price histories is fixed.
\<close>

definition entryTick :: Strategy where
  "entryTick = tickWithinMarket defaultConfig (bookAt 0.70 0.69) 500 marketUpDown 89800 89750
                 (Some (pricesAt 0.70 0.69)) 399.5 (newStrategy defaultConfig 0)"

definition crashTick :: Strategy where
  "crashTick = tickWithinMarket defaultConfig (bookAt 0.66 0.65) 1000 marketUpDown 89800 89750
                 (Some (pricesAt 0.66 0.65)) 399 entryTick"

primrec coolingRun :: "nat \<Rightarrow> Strategy" where
  "coolingRun 0 = crashTick"
| "coolingRun (Suc k) =
     tickWithinMarket defaultConfig (bookAt 0.70 0.69) (1500 + 500 * int k) marketUpDown 89800 89750
       (Some (pricesAt 0.70 0.69)) (398.5 - real k / 2) (coolingRun k)"

definition buy070 :: TradeRecord where
  "buy070 = \<lparr> r_id = ''trade_0'', r_timestamp = 500, r_marketSlug = ''btc-updown-15m'',
      r_side = BUY, r_tokenId = ''UP'', r_tokenType = UP, r_price = 0.70, r_size = 2.8571,
      r_orderId = ''PAPER_FOK_0'', r_status = FILLED, r_pairedWith = None, r_exitType = None,
      r_fixedStopDist = Some 0.04, r_breakEvenTriggered = None \<rparr>"

definition sell072 :: TradeRecord where
  "sell072 = \<lparr> r_id = ''trade_1'', r_timestamp = 500, r_marketSlug = ''btc-updown-15m'',
      r_side = SELL, r_tokenId = ''UP'', r_tokenType = UP, r_price = 0.72, r_size = 2.8571,
      r_orderId = ''PAPER_1'', r_status = PENDING, r_pairedWith = Some ''trade_0'',
      r_exitType = Some LIMIT, r_fixedStopDist = None, r_breakEvenTriggered = None \<rparr>"

definition stop063 :: TradeRecord where
  "stop063 = \<lparr> r_id = ''trade_2'', r_timestamp = 1000, r_marketSlug = ''btc-updown-15m'',
      r_side = SELL, r_tokenId = ''UP'', r_tokenType = UP, r_price = 0.63, r_size = 2.8571,
      r_orderId = ''STOP_LOSS_'' @ showNat 1000, r_status = FILLED,
      r_pairedWith = Some ''trade_0'', r_exitType = Some STOP_LOSS, r_fixedStopDist = None,
      r_breakEvenTriggered = None \<rparr>"

definition coolingState :: "nat \<Rightarrow> QuantEngine \<Rightarrow> PriceHistoryBuffer \<Rightarrow> Strategy" where
  "coolingState k q ph =
     \<lparr> executionGateway =
         \<lparr> paperCash = 19.800003, paperPositions = Map.empty, paperOrders = [],
           filledPaperOrders = {''PAPER_FOK_0''}, paperOrderCounter = 2,
           isExecutingTrade = False \<rparr>,
       quantEngine = q,
       tradeRecords = [(''trade_0'', buy070), (''trade_1'', sell072\<lparr> r_status := CANCELLED \<rparr>),
                       (''trade_2'', stop063)],
       activePositions = [], orderCounter = 3, isTradingLocked = False,
       circuitBreaker = \<lparr> isCoolingDown = True, crashLowPrice = 0.65, stabilityCounter = k,
                          lastStopLossTime = 1000, crashTokenId = ''UP'', lastTradeTime = 500 \<rparr>,
       sessionState = \<lparr> sessionPnL = - 0.199997, sessionStartTime = 0, isSessionLocked = False,
                        lockReason = None, tradesThisSession = 1 \<rparr>,
       s_priceHistory = ph \<rparr>"

text \<open>
  The position of \<open>entryTick\<close> under the monitor: \<open>afterTrigger\<close> is \<open>updateOrderStatus\<close> with the
  bid at 0.716 (profit 0.016), \<open>afterRetrace\<close> a later \<open>updateOrderStatus\<close> with the bid at
  0.695, below the entry price 0.70.
\<close>

definition afterTrigger :: Strategy where
  "afterTrigger = updateOrderStatus defaultConfig (bookAt 0.718 0.716) 1000 (Some 399) entryTick"

definition afterRetrace :: Strategy where
  "afterRetrace =
     updateOrderStatus defaultConfig (bookAt 0.70 0.695) 1500 (Some 398.5) afterTrigger"

text \<open>A fresh strategy whose bankroll, and so its paper cash, is 0.50.\<close>

definition lowCashConfig :: BotConfig where
  "lowCashConfig = defaultConfig\<lparr> BANKROLL := 0.5 \<rparr>"

definition poorStrategy :: Strategy where
  "poorStrategy = newStrategy lowCashConfig 0"

section \<open>Execution gateway: lemmas and theorems\<close>

subsection \<open>Evaluation on concrete states\<close>

lemmas gateway_eval =
  newExecutionGateway_def placePaperOrder_def placeFOKOrder_def executePaperFAK_def
  checkPaperFills_def markFilled_def fillBuy_def fillSell_def priceOrHalf_def
  cancelPaperOrder_def clearAllState_def Let_def digitChar_def

lemma showNat_digit: "n < 10 \<Longrightarrow> showNat n = [digitChar n]"
  by (subst showNat.simps) simp

lemma twoOrders_eval:
  "twoOrders = \<lparr> paperCash = 20, paperPositions = Map.empty,
      paperOrders = [(''PAPER_0'', \<lparr> o_id = ''PAPER_0'', o_tokenId = ''UP'', o_side = SELL,
                        o_price = 0.72, o_size = 2, o_timestamp = 0 \<rparr>),
                     (''PAPER_1'', \<lparr> o_id = ''PAPER_1'', o_tokenId = ''UP'', o_side = BUY,
                        o_price = 0.70, o_size = 2, o_timestamp = 0 \<rparr>)],
      filledPaperOrders = {}, paperOrderCounter = 2, isExecutingTrade = False \<rparr>"
  by (simp add: twoOrders_def gateway_eval showNat_digit)

lemma twoBuys_eval:
  "twoBuys = \<lparr> paperCash = 20, paperPositions = Map.empty,
      paperOrders = [(''PAPER_0'', \<lparr> o_id = ''PAPER_0'', o_tokenId = ''UP'', o_side = BUY,
                        o_price = 0.70, o_size = 2, o_timestamp = 0 \<rparr>),
                     (''PAPER_1'', \<lparr> o_id = ''PAPER_1'', o_tokenId = ''UP'', o_side = BUY,
                        o_price = 0.70, o_size = 2, o_timestamp = 0 \<rparr>)],
      filledPaperOrders = {}, paperOrderCounter = 2, isExecutingTrade = False \<rparr>"
  by (simp add: twoBuys_def gateway_eval showNat_digit)

subsection \<open>What a fill does to the books\<close>

lemma fillBuy_frame [simp]:
  "paperOrders (fillBuy t a ord now g) = paperOrders g"
  "filledPaperOrders (fillBuy t a ord now g) = filledPaperOrders g"
  "paperCash (fillBuy t a ord now g) = paperCash g - min a (o_price ord) * o_size ord"
  "paperOrderCounter (fillBuy t a ord now g) = paperOrderCounter g"
  "isExecutingTrade (fillBuy t a ord now g) = isExecutingTrade g"
  by (simp_all add: fillBuy_def Let_def split: option.splits)

lemma fillSell_frame [simp]:
  "paperOrders (fillSell t b ord g) = paperOrders g"
  "filledPaperOrders (fillSell t b ord g) = filledPaperOrders g"
  "paperCash (fillSell t b ord g) = paperCash g + max b (o_price ord) * o_size ord"
  "paperOrderCounter (fillSell t b ord g) = paperOrderCounter g"
  "isExecutingTrade (fillSell t b ord g) = isExecutingTrade g"
  by (simp_all add: fillSell_def Let_def split: option.splits)

lemma fillBuy_orders_irrelevant:
  "paperPositions (fillBuy t a ord now (g\<lparr>paperOrders := os\<rparr>)) = paperPositions (fillBuy t a ord now g)"
  by (simp add: fillBuy_def Let_def split: option.splits)

lemma fillSell_orders_irrelevant:
  "paperPositions (fillSell t b ord (g\<lparr>paperOrders := os\<rparr>)) = paperPositions (fillSell t b ord g)"
  by (simp add: fillSell_def Let_def split: option.splits)

lemma markFilled_frame [simp]:
  "paperCash (markFilled k g) = paperCash g"
  "paperPositions (markFilled k g) = paperPositions g"
  "filledPaperOrders (markFilled k g) = insert k (filledPaperOrders g)"
  "paperOrders (markFilled k g) = AList.delete k (paperOrders g)"
  by (simp_all add: markFilled_def)

subsection \<open>The fill-check loop\<close>

text \<open>
  A pass that finds no order to fill leaves cash, positions and the filled index as they
  were; a pass that finds one applies exactly that fill. Either way the open orders only
  shrink.
\<close>

lemma firstFill_Some_D:
  "firstFill t a b F es = Some (k, ord) \<Longrightarrow>
   (k, ord) \<in> set es \<and> o_tokenId ord = t \<and> k \<notin> F \<and> orderFills a b ord"
  by (induction es) (auto split: if_splits)

lemma firstFill_None_D:
  "firstFill t a b F es = None \<Longrightarrow> (k, ord) \<in> set es \<Longrightarrow> o_tokenId ord = t \<Longrightarrow> k \<notin> F \<Longrightarrow>
   \<not> orderFills a b ord"
  by (induction es) (auto split: if_splits)

lemma firstFill_append:
  "firstFill t a b F (xs @ ys) =
     (case firstFill t a b F xs of Some e \<Rightarrow> Some e | None \<Rightarrow> firstFill t a b F ys)"
  by (induction xs) auto

lemma firstFill_update_fresh:
  assumes "\<forall>(j, p) \<in> set es. o_tokenId p \<noteq> t" and "o_tokenId ord = t" and "k \<notin> F"
    and "orderFills a b ord"
  shows "firstFill t a b F (AList.update k ord es) = Some (k, ord)"
  using assms(1) by (induction es) (use assms(2-4) in auto)

lemma loop_no_fill:
  "firstFill t a b (filledPaperOrders g) es = None \<Longrightarrow>
   fst (checkPaperFillsLoop t a b now es g) = None \<and>
   paperCash (snd (checkPaperFillsLoop t a b now es g)) = paperCash g \<and>
   paperPositions (snd (checkPaperFillsLoop t a b now es g)) = paperPositions g \<and>
   filledPaperOrders (snd (checkPaperFillsLoop t a b now es g)) = filledPaperOrders g"
proof (induction es arbitrary: g)
  case Nil
  then show ?case by simp
next
  case (Cons e es)
  obtain k ord where e: "e = (k, ord)" by (cases e)
  show ?case
  proof (cases "o_tokenId ord = t")
    case False
    with Cons e show ?thesis by simp
  next
    case tok: True
    show ?thesis
    proof (cases "k \<in> filledPaperOrders g")
      case True
      have "firstFill t a b (filledPaperOrders (g\<lparr>paperOrders := AList.delete k (paperOrders g)\<rparr>)) es = None"
        using Cons.prems e tok True by simp
      from Cons.IH[OF this] show ?thesis using e tok True by simp
    next
      case False
      then have nf: "\<not> orderFills a b ord" and rest: "firstFill t a b (filledPaperOrders g) es = None"
        using Cons.prems e tok by (auto split: if_splits)
      from Cons.IH[OF rest] show ?thesis using e tok False nf
        by (auto simp: orderFills_def)
    qed
  qed
qed

lemma loop_fill:
  "firstFill t a b (filledPaperOrders g) es = Some (k, ord) \<Longrightarrow>
   filledPaperOrders (snd (checkPaperFillsLoop t a b now es g)) = insert k (filledPaperOrders g) \<and>
   paperCash (snd (checkPaperFillsLoop t a b now es g)) =
     (if o_side ord = BUY then paperCash g - min a (o_price ord) * o_size ord
      else paperCash g + max b (o_price ord) * o_size ord) \<and>
   paperPositions (snd (checkPaperFillsLoop t a b now es g)) =
     (if o_side ord = BUY then paperPositions (fillBuy t a ord now g)
      else paperPositions (fillSell t b ord g))"
proof (induction es arbitrary: g)
  case Nil
  then show ?case by simp
next
  case (Cons e es)
  obtain j p where e: "e = (j, p)" by (cases e)
  show ?case
  proof (cases "o_tokenId p = t")
    case False
    with Cons e show ?thesis by simp
  next
    case tok: True
    show ?thesis
    proof (cases "j \<in> filledPaperOrders g")
      case True
      have "firstFill t a b (filledPaperOrders (g\<lparr>paperOrders := AList.delete j (paperOrders g)\<rparr>)) es = Some (k, ord)"
        using Cons.prems e tok True by simp
      from Cons.IH[OF this] show ?thesis using e tok True
        by (simp add: fillBuy_orders_irrelevant fillSell_orders_irrelevant)
    next
      case nin: False
      show ?thesis
      proof (cases "orderFills a b p")
        case True
        then have jk: "j = k" and po: "p = ord" using Cons.prems e tok nin by simp_all
        have tok': "o_tokenId ord = t" and nin': "k \<notin> filledPaperOrders g"
          using tok nin jk po by simp_all
        show ?thesis
        proof (cases "o_side ord")
          case BUY
          with True po have c: "a > 0 \<and> a \<le> o_price ord" by (simp add: orderFills_def)
          show ?thesis unfolding e jk po using BUY c tok' nin' by (simp add: Let_def)
        next
          case SELL
          with True po have c: "b > 0 \<and> b \<ge> o_price ord" by (simp add: orderFills_def)
          show ?thesis unfolding e jk po using SELL c tok' nin' by (simp add: Let_def)
        qed
      next
        case False
        then have rest: "firstFill t a b (filledPaperOrders g) es = Some (k, ord)"
          using Cons.prems e tok nin by simp
        from Cons.IH[OF rest] show ?thesis using e tok nin False
          by (auto simp: orderFills_def)
      qed
    qed
  qed
qed

lemma loop_orders_subset:
  "set (paperOrders (snd (checkPaperFillsLoop t a b now es g))) \<subseteq> set (paperOrders g)"
proof (induction es arbitrary: g)
  case Nil
  then show ?case by simp
next
  case (Cons e es)
  obtain k ord where e: "e = (k, ord)" by (cases e)
  have del: "\<And>j h. set (AList.delete j (paperOrders h)) \<subseteq> set (paperOrders h)"
    by (auto simp: AList.delete_eq)
  show ?case unfolding e
    using Cons.IH[of g] Cons.IH[of "g\<lparr>paperOrders := AList.delete k (paperOrders g)\<rparr>"] del[of k g]
    by (auto simp: Let_def AList.delete_eq)
qed

lemma two_in_filter:
  assumes "x \<in> set xs" "y \<in> set xs" "x \<noteq> y" "P x" "P y"
  shows "2 \<le> length (filter P xs)"
proof -
  have "{x, y} \<subseteq> set (filter P xs)" using assms by simp
  then have "card {x, y} \<le> card (set (filter P xs))" by (intro card_mono) simp_all
  also have "\<dots> \<le> length (filter P xs)" by (rule card_length)
  finally show ?thesis using assms(3) by simp
qed

lemma checkPaperFills_book_side_zero:
  assumes "(k, p) \<in> set (paperOrders g)" and "k \<notin> filledPaperOrders g"
    and "distinct (map fst (paperOrders g))"
    and "(o_side p = BUY \<and> ask \<le> 0) \<or> (o_side p = SELL \<and> bid \<le> 0)"
  shows "k \<notin> filledPaperOrders (snd (checkPaperFills tokenId ask bid now g))"
proof (cases "firstFill tokenId ask bid (filledPaperOrders g) (paperOrders g)")
  case None
  from loop_no_fill[OF None] assms(2) show ?thesis by (simp add: checkPaperFills_def)
next
  case (Some e)
  obtain j q where e: "e = (j, q)" by (cases e)
  from Some e have ff: "firstFill tokenId ask bid (filledPaperOrders g) (paperOrders g) = Some (j, q)"
    by simp
  from firstFill_Some_D[OF ff] have jq: "(j, q) \<in> set (paperOrders g)" and fills: "orderFills ask bid q"
    by simp_all
  have "j \<noteq> k"
  proof
    assume "j = k"
    with jq assms(1,3) have "q = p" by (meson eq_key_imp_eq_value)
    with fills assms(4) show False by (auto simp: orderFills_def)
  qed
  with loop_fill[OF ff] assms(2) show ?thesis by (simp add: checkPaperFills_def)
qed

text \<open>
  Claim C2, as stated: every open limit order of the token whose side of the book crosses its
  limit is filled by the call. \<open>checkPaperFills\<close> returns at its first fill, so an order that
  stands behind a filled one is not visited. With two resting BUYs at 0.70 and an ask of 0.68,
  the second order, \<open>PAPER_1\<close>, is open, not in the filled index and meets
  \<open>0 < best_ask \<le> limit\<close>; the call fills \<open>PAPER_0\<close> alone and leaves \<open>PAPER_1\<close> open.
\<close>

theorem checkPaperFills_second_order_counterexample:
  "map_of (paperOrders twoBuys) ''PAPER_1''
     = Some \<lparr> o_id = ''PAPER_1'', o_tokenId = ''UP'', o_side = BUY, o_price = 0.70, o_size = 2,
              o_timestamp = 0 \<rparr> \<and>
   ''PAPER_1'' \<notin> filledPaperOrders twoBuys \<and>
   (0::real) < 0.68 \<and> (0.68::real) \<le> 0.70 \<and>
   ''PAPER_1'' \<notin> filledPaperOrders (snd (checkPaperFills ''UP'' 0.68 0.66 1 twoBuys)) \<and>
   ''PAPER_1'' \<in> fst ` set (paperOrders (snd (checkPaperFills ''UP'' 0.68 0.66 1 twoBuys))) \<and>
   filledPaperOrders (snd (checkPaperFills ''UP'' 0.68 0.66 1 twoBuys)) = {''PAPER_0''}"
  by (simp add: twoBuys_eval gateway_eval)

text \<open>
  Claim C2, amended. In paper mode, an open limit order that a call of \<open>checkPaperFills\<close>
  reaches (the order is for the token, is not yet in the filled index, and the call fills no
  order standing before it in the open-order map) is filled iff its side of the book is
  positive and crosses the limit: a BUY iff \<open>0 < best_ask \<le> limit\<close>, at price
  \<open>min best_ask limit\<close>; a SELL iff \<open>0 < best_bid\<close> and \<open>best_bid \<ge> limit\<close>, at price
  \<open>max best_bid limit\<close>. The fill price is read off the change of cash. No open BUY is filled
  when the ask is reported as 0 and no open SELL when the bid is reported as 0, wherever the
  order stands.
\<close>

theorem checkPaperFills_fill_rule:
  assumes orders: "paperOrders g = pre @ (orderId, order) # post"
    and dist: "distinct (map fst (paperOrders g))"
    and tok: "o_tokenId order = tokenId"
    and fresh: "orderId \<notin> filledPaperOrders g"
    and reached: "\<forall>k \<in> fst ` set pre.
        k \<in> filledPaperOrders (snd (checkPaperFills tokenId ask bid now g)) \<longrightarrow>
        k \<in> filledPaperOrders g"
    and g': "g' = snd (checkPaperFills tokenId ask bid now g)"
  shows "(o_side order = BUY \<longrightarrow>
            (orderId \<in> filledPaperOrders g' \<longleftrightarrow> 0 < ask \<and> ask \<le> o_price order) \<and>
            (orderId \<in> filledPaperOrders g' \<longrightarrow>
               paperCash g' = paperCash g - min ask (o_price order) * o_size order)) \<and>
         (o_side order = SELL \<longrightarrow>
            (orderId \<in> filledPaperOrders g' \<longleftrightarrow> 0 < bid \<and> bid \<ge> o_price order) \<and>
            (orderId \<in> filledPaperOrders g' \<longrightarrow>
               paperCash g' = paperCash g + max bid (o_price order) * o_size order)) \<and>
         (\<forall>(k, p) \<in> set (paperOrders g).
            k \<notin> filledPaperOrders g \<and>
            ((o_side p = BUY \<and> ask = 0) \<or> (o_side p = SELL \<and> bid = 0)) \<longrightarrow>
            k \<notin> filledPaperOrders g')"
proof -
  let ?F = "filledPaperOrders g"
  have pre_none: "firstFill tokenId ask bid ?F pre = None"
  proof (rule ccontr)
    assume "firstFill tokenId ask bid ?F pre \<noteq> None"
    then obtain j q where ffp: "firstFill tokenId ask bid ?F pre = Some (j, q)" by auto
    then have ff: "firstFill tokenId ask bid ?F (paperOrders g) = Some (j, q)"
      by (simp add: orders firstFill_append)
    from firstFill_Some_D[OF ffp] have jpre: "j \<in> fst ` set pre" and jF: "j \<notin> ?F"
      by (force, simp)
    from loop_fill[OF ff] have "j \<in> filledPaperOrders (snd (checkPaperFills tokenId ask bid now g))"
      by (simp add: checkPaperFills_def)
    with reached jpre have "j \<in> ?F" by blast
    with jF show False by simp
  qed
  have ff_all: "firstFill tokenId ask bid ?F (paperOrders g) =
      (if orderFills ask bid order then Some (orderId, order)
       else firstFill tokenId ask bid ?F post)"
    using pre_none tok fresh by (simp add: orders firstFill_append)
  have main: "(orderId \<in> filledPaperOrders g' \<longleftrightarrow> orderFills ask bid order) \<and>
      (orderId \<in> filledPaperOrders g' \<longrightarrow>
         paperCash g' = (if o_side order = BUY
            then paperCash g - min ask (o_price order) * o_size order
            else paperCash g + max bid (o_price order) * o_size order))"
  proof (cases "orderFills ask bid order")
    case True
    with ff_all have "firstFill tokenId ask bid ?F (paperOrders g) = Some (orderId, order)" by simp
    from loop_fill[OF this] True show ?thesis by (simp add: g' checkPaperFills_def)
  next
    case nf: False
    show ?thesis
    proof (cases "firstFill tokenId ask bid ?F post")
      case None
      with ff_all nf have "firstFill tokenId ask bid ?F (paperOrders g) = None" by simp
      from loop_no_fill[OF this] fresh nf show ?thesis by (simp add: g' checkPaperFills_def)
    next
      case (Some e)
      obtain j q where e: "e = (j, q)" by (cases e)
      with Some ff_all nf have ff: "firstFill tokenId ask bid ?F (paperOrders g) = Some (j, q)"
        by simp
      from Some e firstFill_Some_D have "(j, q) \<in> set post" by blast
      then have "j \<in> fst ` set post" by force
      with dist orders have "j \<noteq> orderId" by auto
      with loop_fill[OF ff] fresh nf show ?thesis by (simp add: g' checkPaperFills_def)
    qed
  qed
  have zero: "\<forall>(k, p) \<in> set (paperOrders g).
            k \<notin> filledPaperOrders g \<and>
            ((o_side p = BUY \<and> ask = 0) \<or> (o_side p = SELL \<and> bid = 0)) \<longrightarrow>
            k \<notin> filledPaperOrders g'"
    using checkPaperFills_book_side_zero[OF _ _ dist, of _ _ ask bid tokenId now]
    unfolding g' by fastforce
  from main zero show ?thesis
    by (cases "o_side order") (simp_all add: orderFills_def)
qed

theorem checkPaperFills_fill_rule_witness:
  "''PAPER_1'' \<in> filledPaperOrders (snd (checkPaperFills ''UP'' 0.68 0.66 1 twoOrders)) \<and>
   ''PAPER_0'' \<notin> filledPaperOrders (snd (checkPaperFills ''UP'' 0.68 0.66 1 twoOrders)) \<and>
   paperCash (snd (checkPaperFills ''UP'' 0.68 0.66 1 twoOrders)) = 20 - 0.68 * 2"
proof -
  let ?sell = "\<lparr> o_id = ''PAPER_0'', o_tokenId = ''UP'', o_side = SELL,
                        o_price = 0.72, o_size = 2, o_timestamp = 0 \<rparr>"
  let ?buy = "\<lparr> o_id = ''PAPER_1'', o_tokenId = ''UP'', o_side = BUY,
                        o_price = 0.70, o_size = 2, o_timestamp = 0 \<rparr>"
  let ?g' = "snd (checkPaperFills ''UP'' 0.68 0.66 1 twoOrders)"
  have h1: "paperOrders twoOrders = [(''PAPER_0'', ?sell)] @ (''PAPER_1'', ?buy) # []"
    by (simp add: twoOrders_eval)
  have h2: "distinct (map fst (paperOrders twoOrders))" by (simp add: twoOrders_eval)
  have h3: "o_tokenId ?buy = ''UP''" by simp
  have h4: "''PAPER_1'' \<notin> filledPaperOrders twoOrders" by (simp add: twoOrders_eval)
  have h0: "''PAPER_0'' \<notin> filledPaperOrders ?g'"
    by (simp add: twoOrders_eval gateway_eval)
  then have h5: "\<forall>k \<in> fst ` set [(''PAPER_0'', ?sell)].
        k \<in> filledPaperOrders (snd (checkPaperFills ''UP'' 0.68 0.66 1 twoOrders)) \<longrightarrow>
        k \<in> filledPaperOrders twoOrders" by simp
  from checkPaperFills_fill_rule[OF h1 h2 h3 h4 h5 refl] h0
  show ?thesis by (simp add: twoOrders_eval)
qed

subsection \<open>Order identifiers and reachable gateway states\<close>

lemma digitChar_not_F: "d < 10 \<Longrightarrow> digitChar d \<noteq> CHR ''F''"
proof -
  assume "d < 10"
  then have "d \<in> {0, 1, 2, 3, 4, 5, 6, 7, 8, 9}" by auto
  then show ?thesis by (auto simp: digitChar_def)
qed

lemma showNat_head: "\<exists>d cs. d < 10 \<and> showNat n = digitChar d # cs"
proof (induction n rule: showNat.induct)
  case (1 n)
  show ?case
  proof (cases "n < 10")
    case True
    then show ?thesis by (subst showNat.simps) auto
  next
    case False
    with 1 obtain d cs where "d < 10" "showNat (n div 10) = digitChar d # cs" by auto
    with False show ?thesis by (subst showNat.simps) auto
  qed
qed

lemma fok_id_not_limit_id: "''PAPER_FOK_'' @ x \<noteq> ''PAPER_'' @ showNat n"
proof -
  obtain d cs where "d < 10" "showNat n = digitChar d # cs" using showNat_head by blast
  then show ?thesis using digitChar_not_F[of d] by auto
qed

lemma executePaperFAK_orders [simp]:
  "paperOrders (snd (executePaperFAK t s p z now g)) = paperOrders g"
  by (simp add: executePaperFAK_def Let_def split: OrderSide.splits option.splits)

lemma executePaperFAK_filled [simp]:
  "filledPaperOrders (snd (executePaperFAK t s p z now g)) = filledPaperOrders g"
  "paperOrderCounter (snd (executePaperFAK t s p z now g)) = paperOrderCounter g"
  by (simp_all add: executePaperFAK_def Let_def split: OrderSide.splits option.splits)

lemma placeFOKOrder_orders [simp]:
  "paperOrders (snd (placeFOKOrder t s a p now g)) = paperOrders g"
proof (cases "isExecutingTrade g")
  case True
  then show ?thesis by (simp add: placeFOKOrder_def)
next
  case False
  let ?sz = "if s = BUY then a / priceOrHalf p else a"
  obtain ex g1 where r: "executePaperFAK t s (priceOrHalf p) ?sz now (g\<lparr>isExecutingTrade := True\<rparr>) = (ex, g1)"
    by (cases "executePaperFAK t s (priceOrHalf p) ?sz now (g\<lparr>isExecutingTrade := True\<rparr>)")
  have "paperOrders g1 = paperOrders g"
    using executePaperFAK_orders[of t s "priceOrHalf p" ?sz now "g\<lparr>isExecutingTrade := True\<rparr>"] r
    by simp
  with False r show ?thesis by (simp add: placeFOKOrder_def Let_def)
qed

lemma gatewayReachable_limitIds: "gatewayReachable g \<Longrightarrow> limitIds g"
proof (induction rule: gatewayReachable.induct)
  case (new bankroll)
  then show ?case by (simp add: limitIds_def newExecutionGateway_def)
next
  case (placeLimit g tokenId side price sz type now)
  then show ?case
    unfolding limitIds_def placePaperOrder_def Let_def
    by (simp del: append.simps add: dom_update)
next
  case (placeFOK g tokenId side amount price now)
  then show ?case by (simp add: limitIds_def)
next
  case (cancel g orderId)
  then show ?case
    by (auto simp: limitIds_def cancelPaperOrder_def AList.delete_eq)
next
  case (executeFAK g tokenId side price sz now)
  then show ?case by (simp add: limitIds_def)
next
  case (checkFills g tokenId currentBestAsk currentBestBid now)
  have "fst ` set (paperOrders (snd (checkPaperFills tokenId currentBestAsk currentBestBid now g)))
      \<subseteq> fst ` set (paperOrders g)"
    unfolding checkPaperFills_def by (intro image_mono loop_orders_subset)
  with checkFills.IH show ?case unfolding limitIds_def by blast
next
  case (clear g)
  then show ?case by (simp add: limitIds_def clearAllState_def)
next
  case (resetCash g initialAmount)
  then show ?case by (simp add: limitIds_def resetPaperCash_def)
qed

lemma fok_id_never_open:
  "gatewayReachable h \<Longrightarrow> ''PAPER_FOK_'' @ x \<notin> fst ` set (paperOrders h)"
proof
  assume "gatewayReachable h" and "''PAPER_FOK_'' @ x \<in> fst ` set (paperOrders h)"
  with gatewayReachable_limitIds[of h] obtain n where "''PAPER_FOK_'' @ x = ''PAPER_'' @ showNat n"
    unfolding limitIds_def by blast
  with fok_id_not_limit_id show False by blast
qed

subsection \<open>Fill-or-kill orders\<close>

lemma priceOrHalf_nonzero: "priceOrHalf price \<noteq> 0"
  by (simp add: priceOrHalf_def split: option.splits)

lemma executePaperFAK_fails:
  assumes "(side = BUY \<and> paperCash g < price * sz) \<or>
     (side = SELL \<and> (case paperPositions g tokenId of None \<Rightarrow> True | Some position \<Rightarrow> p_shares position < sz))"
  shows "executePaperFAK tokenId side price sz now g = (False, g)"
  using assms by (auto simp: executePaperFAK_def Let_def split: option.splits)

lemma placeFOKOrder_failure:
  assumes "(side = BUY \<and> paperCash g < amount) \<or>
     (side = SELL \<and> (case paperPositions g tokenId of None \<Rightarrow> True
                       | Some position \<Rightarrow> p_shares position < amount))"
  shows "(\<exists>e. fst (placeFOKOrder tokenId side amount price now g) = Inl e) \<and>
         snd (placeFOKOrder tokenId side amount price now g) = g"
proof (cases "isExecutingTrade g")
  case True
  then show ?thesis by (simp add: placeFOKOrder_def)
next
  case False
  let ?g0 = "g\<lparr>isExecutingTrade := True\<rparr>"
  let ?sz = "if side = BUY then amount / priceOrHalf price else amount"
  have "executePaperFAK tokenId side (priceOrHalf price) ?sz now ?g0 = (False, ?g0)"
    by (rule executePaperFAK_fails) (use assms priceOrHalf_nonzero[of price] in auto)
  with False show ?thesis by (simp add: placeFOKOrder_def Let_def)
qed

lemma placeFOKOrder_success:
  assumes "fst (placeFOKOrder tokenId side amount price now g) = Inr orderId"
  shows "orderId = ''PAPER_FOK_'' @ showNat (paperOrderCounter g) \<and>
         orderId \<in> filledPaperOrders (snd (placeFOKOrder tokenId side amount price now g))"
proof (cases "isExecutingTrade g")
  case True
  with assms show ?thesis by (simp add: placeFOKOrder_def)
next
  case False
  let ?g0 = "g\<lparr>isExecutingTrade := True\<rparr>"
  let ?sz = "if side = BUY then amount / priceOrHalf price else amount"
  obtain ex g1 where r: "executePaperFAK tokenId side (priceOrHalf price) ?sz now ?g0 = (ex, g1)"
    by (cases "executePaperFAK tokenId side (priceOrHalf price) ?sz now ?g0")
  have c: "paperOrderCounter g1 = paperOrderCounter g"
    using executePaperFAK_filled(2)[of tokenId side "priceOrHalf price" ?sz now ?g0] r by simp
  from assms False r have ex by (auto simp: placeFOKOrder_def Let_def split: if_splits)
  with assms False r c show ?thesis by (auto simp: placeFOKOrder_def Let_def)
qed

text \<open>
  Claim C3. In paper mode, for every gateway state and every FOK order: when cash is below the
  amount (BUY), or the position is absent or holds fewer shares than requested (SELL),
  \<open>placeFOKOrder\<close> throws and leaves cash, positions and open orders as they were. When it
  succeeds, the open orders are unchanged, the returned id is in the filled index, and that
  id is an open order in no reachable gateway state, so no fill check ever visits it.
\<close>

theorem placeFOKOrder_contract:
  "((side = BUY \<and> paperCash g < amount) \<or>
    (side = SELL \<and> (case paperPositions g tokenId of None \<Rightarrow> True
                      | Some position \<Rightarrow> p_shares position < amount))
    \<longrightarrow> (\<exists>e. fst (placeFOKOrder tokenId side amount price now g) = Inl e) \<and>
        paperCash (snd (placeFOKOrder tokenId side amount price now g)) = paperCash g \<and>
        paperPositions (snd (placeFOKOrder tokenId side amount price now g)) = paperPositions g \<and>
        paperOrders (snd (placeFOKOrder tokenId side amount price now g)) = paperOrders g) \<and>
   (fst (placeFOKOrder tokenId side amount price now g) = Inr orderId
    \<longrightarrow> paperOrders (snd (placeFOKOrder tokenId side amount price now g)) = paperOrders g \<and>
        orderId \<in> filledPaperOrders (snd (placeFOKOrder tokenId side amount price now g)) \<and>
        (\<forall>h. gatewayReachable h \<longrightarrow> orderId \<notin> fst ` set (paperOrders h)))"
proof (intro conjI impI)
  assume "fst (placeFOKOrder tokenId side amount price now g) = Inr orderId"
  from placeFOKOrder_success[OF this]
  have oid: "orderId = ''PAPER_FOK_'' @ showNat (paperOrderCounter g)"
    and mem: "orderId \<in> filledPaperOrders (snd (placeFOKOrder tokenId side amount price now g))"
    by blast+
  from mem show "orderId \<in> filledPaperOrders (snd (placeFOKOrder tokenId side amount price now g))" .
  show "\<forall>h. gatewayReachable h \<longrightarrow> orderId \<notin> fst ` set (paperOrders h)"
    unfolding oid using fok_id_never_open by blast
qed (use placeFOKOrder_failure[of side g amount tokenId price now] in simp_all)

theorem placeFOKOrder_contract_witness:
  "fst (placeFOKOrder ''UP'' BUY 25 (Some 0.7) 0 (newExecutionGateway 20)) = Inl FOKFailed \<and>
   paperCash (snd (placeFOKOrder ''UP'' BUY 25 (Some 0.7) 0 (newExecutionGateway 20))) = 20 \<and>
   paperOrders (snd (placeFOKOrder ''UP'' BUY 25 (Some 0.7) 0 (newExecutionGateway 20))) = [] \<and>
   fst (placeFOKOrder ''UP'' BUY 2 (Some 0.7) 0 (newExecutionGateway 20)) = Inr ''PAPER_FOK_0'' \<and>
   ''PAPER_FOK_0'' \<in> filledPaperOrders
      (snd (placeFOKOrder ''UP'' BUY 2 (Some 0.7) 0 (newExecutionGateway 20))) \<and>
   ''PAPER_FOK_0'' \<notin> fst ` set (paperOrders
      (snd (placePaperOrder ''UP'' SELL 0.72 2 GTC 0
        (snd (placeFOKOrder ''UP'' BUY 2 (Some 0.7) 0 (newExecutionGateway 20))))))"
proof -
  let ?g = "newExecutionGateway 20"
  have low: "paperCash ?g < 25" by (simp add: newExecutionGateway_def)
  have ok: "fst (placeFOKOrder ''UP'' BUY 2 (Some 0.7) 0 ?g) = Inr ''PAPER_FOK_0''"
    by (simp add: gateway_eval showNat_digit)
  have reach: "gatewayReachable (snd (placePaperOrder ''UP'' SELL 0.72 2 GTC 0
        (snd (placeFOKOrder ''UP'' BUY 2 (Some 0.7) 0 ?g))))"
    by (intro gatewayReachable.intros)
  from placeFOKOrder_contract[of BUY ?g 25 "''UP''" "Some 0.7" 0 "''x''"] low
  have a: "(\<exists>e. fst (placeFOKOrder ''UP'' BUY 25 (Some 0.7) 0 ?g) = Inl e) \<and>
        paperCash (snd (placeFOKOrder ''UP'' BUY 25 (Some 0.7) 0 ?g)) = paperCash ?g \<and>
        paperOrders (snd (placeFOKOrder ''UP'' BUY 25 (Some 0.7) 0 ?g)) = paperOrders ?g"
    by simp
  have a1: "fst (placeFOKOrder ''UP'' BUY 25 (Some 0.7) 0 ?g) = Inl FOKFailed"
    by (simp add: gateway_eval)
  from placeFOKOrder_contract[of BUY ?g 2 "''UP''" "Some 0.7" 0 "''PAPER_FOK_0''"] ok reach
  have b: "''PAPER_FOK_0'' \<in> filledPaperOrders (snd (placeFOKOrder ''UP'' BUY 2 (Some 0.7) 0 ?g)) \<and>
     ''PAPER_FOK_0'' \<notin> fst ` set (paperOrders (snd (placePaperOrder ''UP'' SELL 0.72 2 GTC 0
        (snd (placeFOKOrder ''UP'' BUY 2 (Some 0.7) 0 ?g)))))"
    by blast
  from a a1 b ok show ?thesis by (simp add: newExecutionGateway_def)
qed

subsection \<open>Repeating the fill check\<close>

text \<open>
  Claim C5, as stated: running \<open>checkPaperFills\<close> twice with the same arguments gives the same
  cash and positions as running it once. The loop returns at the first fill, so with two
  resting BUYs at 0.70 and an ask of 0.68 the first pass fills one order (cash 18.64) and the
  second pass fills the other (cash 17.28).
\<close>

theorem checkPaperFills_twice_counterexample:
  "paperCash (snd (checkPaperFills ''UP'' 0.68 0.66 1 twoBuys)) = 18.64 \<and>
   paperCash (snd (checkPaperFills ''UP'' 0.68 0.66 1
                (snd (checkPaperFills ''UP'' 0.68 0.66 1 twoBuys)))) = 17.28"
  by (simp add: twoBuys_eval gateway_eval)

text \<open>
  Claim C5, amended: when at most one open order of the token that is not yet in the filled
  index meets its fill condition at the given prices, a second \<open>checkPaperFills\<close> with the
  same token and prices leaves cash and positions as the first one left them.
\<close>

theorem checkPaperFills_idempotent_single:
  assumes one: "length (filter (\<lambda>(k, order). o_tokenId order = tokenId \<and>
                    k \<notin> filledPaperOrders g \<and> orderFills ask bid order) (paperOrders g)) \<le> 1"
  shows "paperCash (snd (checkPaperFills tokenId ask bid now2
            (snd (checkPaperFills tokenId ask bid now g))))
          = paperCash (snd (checkPaperFills tokenId ask bid now g)) \<and>
         paperPositions (snd (checkPaperFills tokenId ask bid now2
            (snd (checkPaperFills tokenId ask bid now g))))
          = paperPositions (snd (checkPaperFills tokenId ask bid now g))"
proof -
  let ?F = "filledPaperOrders g"
  let ?g1 = "snd (checkPaperFills tokenId ask bid now g)"
  let ?P = "\<lambda>(k, order). o_tokenId order = tokenId \<and> k \<notin> ?F \<and> orderFills ask bid order"
  have sub: "set (paperOrders ?g1) \<subseteq> set (paperOrders g)"
    unfolding checkPaperFills_def by (rule loop_orders_subset)
  have "firstFill tokenId ask bid (filledPaperOrders ?g1) (paperOrders ?g1) = None"
  proof (rule ccontr)
    assume "firstFill tokenId ask bid (filledPaperOrders ?g1) (paperOrders ?g1) \<noteq> None"
    then obtain j q where
      ff2: "firstFill tokenId ask bid (filledPaperOrders ?g1) (paperOrders ?g1) = Some (j, q)"
      by auto
    from firstFill_Some_D[OF ff2] sub
    have jq: "(j, q) \<in> set (paperOrders g)" and tq: "o_tokenId q = tokenId"
      and jn: "j \<notin> filledPaperOrders ?g1" and fq: "orderFills ask bid q" by auto
    show False
    proof (cases "firstFill tokenId ask bid ?F (paperOrders g)")
      case None
      from loop_no_fill[OF None] have "filledPaperOrders ?g1 = ?F"
        by (simp add: checkPaperFills_def)
      with jn firstFill_None_D[OF None jq tq] fq show False by simp
    next
      case (Some e)
      obtain k ord where e: "e = (k, ord)" by (cases e)
      with Some have ff: "firstFill tokenId ask bid ?F (paperOrders g) = Some (k, ord)" by simp
      from loop_fill[OF ff] have F1: "filledPaperOrders ?g1 = insert k ?F"
        by (simp add: checkPaperFills_def)
      from firstFill_Some_D[OF ff] have ko: "(k, ord) \<in> set (paperOrders g)" and Pk: "?P (k, ord)"
        by simp_all
      from jn F1 have "j \<noteq> k" and "j \<notin> ?F" by simp_all
      with tq fq have Pj: "?P (j, q)" and ne: "(k, ord) \<noteq> (j, q)" by simp_all
      from two_in_filter[OF ko jq ne Pk Pj] one show False by simp
    qed
  qed
  from loop_no_fill[OF this] show ?thesis by (simp add: checkPaperFills_def)
qed

theorem checkPaperFills_idempotent_single_witness:
  "paperCash (snd (checkPaperFills ''UP'' 0.68 0.66 2
       (snd (checkPaperFills ''UP'' 0.68 0.66 1 twoOrders)))) = 18.64 \<and>
   paperCash (snd (checkPaperFills ''UP'' 0.68 0.66 1 twoOrders)) = 18.64 \<and>
   paperPositions (snd (checkPaperFills ''UP'' 0.68 0.66 2
       (snd (checkPaperFills ''UP'' 0.68 0.66 1 twoOrders)))) ''UP''
     = Some \<lparr> p_tokenId = ''UP'', p_shares = 2, p_entryPrice = 0.68, p_entryTime = 1 \<rparr>"
proof -
  have one: "length (filter (\<lambda>(k, order). o_tokenId order = ''UP'' \<and>
       k \<notin> filledPaperOrders twoOrders \<and> orderFills 0.68 0.66 order) (paperOrders twoOrders)) \<le> 1"
    by (simp add: twoOrders_eval orderFills_def)
  have c: "paperCash (snd (checkPaperFills ''UP'' 0.68 0.66 1 twoOrders)) = 18.64"
    by (simp add: twoOrders_eval gateway_eval)
  have p: "paperPositions (snd (checkPaperFills ''UP'' 0.68 0.66 1 twoOrders)) ''UP''
     = Some \<lparr> p_tokenId = ''UP'', p_shares = 2, p_entryPrice = 0.68, p_entryTime = 1 \<rparr>"
    by (simp add: twoOrders_eval gateway_eval)
  from checkPaperFills_idempotent_single[OF one, of 2 1] c p show ?thesis by simp
qed

subsection \<open>Limit BUYs are filled without a cash check\<close>

text \<open>
  Claim C10. \<open>placePaperOrder\<close> accepts a BUY limit order whatever the cash is, and when the
  order is the only open order of its token and \<open>0 < best_ask \<le> limit\<close>, the next
  \<open>checkPaperFills\<close> takes \<open>min best_ask limit * size\<close> from cash, whatever the cash is. On a
  fresh gateway with cash 20, a BUY of 100 shares at limit 0.70 filled at 0.68 leaves cash
  negative, while an FOK BUY of the same cost (68 at price 0.68) is rejected and leaves cash
  at 20.
\<close>

theorem limit_buy_fills_without_cash_check:
  "((\<forall>(k, p) \<in> set (paperOrders g). o_tokenId p \<noteq> tokenId) \<and>
    ''PAPER_'' @ showNat (paperOrderCounter g) \<notin> filledPaperOrders g \<and>
    0 < ask \<and> ask \<le> price
    \<longrightarrow> fst (placePaperOrder tokenId BUY price sz type now g)
          \<in> fst ` set (paperOrders (snd (placePaperOrder tokenId BUY price sz type now g))) \<and>
        paperCash (snd (checkPaperFills tokenId ask bid now2
                    (snd (placePaperOrder tokenId BUY price sz type now g))))
          = paperCash g - min ask price * sz) \<and>
   paperCash (snd (checkPaperFills ''UP'' 0.68 0.66 1
                (snd (placePaperOrder ''UP'' BUY 0.70 100 GTC 0 (newExecutionGateway 20))))) < 0 \<and>
   fst (placeFOKOrder ''UP'' BUY 68 (Some 0.68) 0 (newExecutionGateway 20)) = Inl FOKFailed \<and>
   paperCash (snd (placeFOKOrder ''UP'' BUY 68 (Some 0.68) 0 (newExecutionGateway 20))) = 20"
proof (intro conjI impI)
  let ?k = "''PAPER_'' @ showNat (paperOrderCounter g)"
  let ?ord = "\<lparr> o_id = ?k, o_tokenId = tokenId, o_side = BUY, o_price = price,
                    o_size = sz, o_timestamp = now \<rparr>"
  let ?g1 = "snd (placePaperOrder tokenId BUY price sz type now g)"
  assume h: "(\<forall>(k, p) \<in> set (paperOrders g). o_tokenId p \<noteq> tokenId) \<and>
    ?k \<notin> filledPaperOrders g \<and> 0 < ask \<and> ask \<le> price"
  have g1: "paperOrders ?g1 = AList.update ?k ?ord (paperOrders g)"
    "filledPaperOrders ?g1 = filledPaperOrders g" "paperCash ?g1 = paperCash g"
    by (simp_all add: placePaperOrder_def Let_def del: append.simps)
  show "fst (placePaperOrder tokenId BUY price sz type now g) \<in> fst ` set (paperOrders ?g1)"
    unfolding g1 dom_update by (simp add: placePaperOrder_def Let_def del: append.simps)
  have "firstFill tokenId ask bid (filledPaperOrders ?g1) (paperOrders ?g1) = Some (?k, ?ord)"
    unfolding g1 by (rule firstFill_update_fresh) (use h in \<open>simp_all add: orderFills_def\<close>)
  from loop_fill[OF this, of now2]
  show "paperCash (snd (checkPaperFills tokenId ask bid now2 ?g1)) = paperCash g - min ask price * sz"
    by (simp add: checkPaperFills_def g1)
qed (simp_all add: gateway_eval showNat_digit)

theorem limit_buy_fills_without_cash_check_witness:
  "paperCash (snd (checkPaperFills ''DOWN'' 0.5 0.4 1
                (snd (placePaperOrder ''DOWN'' BUY 0.6 10 GTC 0 (newExecutionGateway 1))))) = - 4"
proof -
  have "(\<forall>(k, p) \<in> set (paperOrders (newExecutionGateway 1)). o_tokenId p \<noteq> ''DOWN'') \<and>
    ''PAPER_'' @ showNat (paperOrderCounter (newExecutionGateway 1))
       \<notin> filledPaperOrders (newExecutionGateway 1) \<and> (0::real) < 0.5 \<and> (0.5::real) \<le> 0.6"
    by (simp add: newExecutionGateway_def)
  with limit_buy_fills_without_cash_check[where g = "newExecutionGateway 1" and ask = "0.5"
      and price = "0.6" and tokenId = "''DOWN''" and sz = 10 and type = GTC and now = 0
      and bid = "0.4" and ?now2.0 = 1]
  show ?thesis by (simp add: newExecutionGateway_def)
qed

section \<open>Quant engine: lemmas and theorems\<close>

lemma foldl_plus_sum_list: "foldl (\<lambda>a b. a + f b) (acc::real) xs = acc + sum_list (map f xs)"
  by (induction xs arbitrary: acc) simp_all

lemma changes_firstDifferences:
  "map (\<lambda>i. pp_price (h ! i) - pp_price (h ! (i - 1))) [1..<length h] = firstDifferences h"
proof (rule nth_equalityI)
  show "length (map (\<lambda>i. pp_price (h ! i) - pp_price (h ! (i - 1))) [1..<length h])
      = length (firstDifferences h)"
    by (simp add: firstDifferences_def)
next
  fix i assume "i < length (map (\<lambda>i. pp_price (h ! i) - pp_price (h ! (i - 1))) [1..<length h])"
  then have i: "i < length h - 1" by simp
  then show "map (\<lambda>i. pp_price (h ! i) - pp_price (h ! (i - 1))) [1..<length h] ! i
      = firstDifferences h ! i"
    by (simp add: firstDifferences_def nth_tl)
qed

lemma getVolatilityPerMinute_unfold:
  "getVolatilityPerMinute q =
     (if length (q_priceHistory q) < 5 then 10
      else max 5 (populationStdDev (firstDifferences (q_priceHistory q))
                  * sqrt (if observedSpanSeconds (q_priceHistory q) > 0
                          then (real (length (q_priceHistory q))
                                / observedSpanSeconds (q_priceHistory q)) * 60
                          else 60)))"
proof -
  have sum: "\<And>ds::real list. foldl (\<lambda>a b. a + b) 0 ds = sum_list ds"
    using foldl_plus_sum_list[of "\<lambda>x. x" 0] by simp
  show ?thesis
    unfolding getVolatilityPerMinute_def Let_def changes_firstDifferences sum
      foldl_plus_sum_list populationStdDev_def observedSpanSeconds_def
    by simp
qed

lemma sameInstant_code: "getVolatilityPerMinute \<lparr> q_priceHistory = sameInstantHistory \<rparr> = 100 * sqrt 60"
proof -
  have ch: "firstDifferences sameInstantHistory = [100, -100, 100, -100]"
    by (simp add: firstDifferences_def sameInstantHistory_def)
  have sd: "populationStdDev [100, -100, 100, -100] = 100"
  proof -
    have "populationStdDev [100, -100, 100, -100] = sqrt (100 ^ 2)"
      unfolding populationStdDev_def by (simp add: power2_eq_square)
    then show ?thesis by simp
  qed
  have span: "observedSpanSeconds sameInstantHistory = 0"
    by (simp add: observedSpanSeconds_def sameInstantHistory_def)
  have big: "(5::real) \<le> 100 * sqrt 60"
  proof -
    have "1 \<le> sqrt 60" by simp
    then show ?thesis by linarith
  qed
  have len: "length sameInstantHistory = 5" by (simp add: sameInstantHistory_def)
  show ?thesis
    using getVolatilityPerMinute_unfold[of "\<lparr> q_priceHistory = sameInstantHistory \<rparr>"] big
    by (simp add: ch sd span len)
qed

text \<open>
  Claim C9, as stated: the sampling rate is \<open>(n / span) * 60\<close> for every history. Five samples
  taken at one instant have span 0; the code then takes 60 ticks per minute and returns
  \<open>100 * sqrt 60\<close>, while the stated formula divides by the span: the quotient is 0 in HOL, which
  makes the stated value 5, and infinite in floating point.
\<close>

theorem claimedVolatility_counterexample:
  "observedSpanSeconds sameInstantHistory = 0 \<and>
   getVolatilityPerMinute \<lparr> q_priceHistory = sameInstantHistory \<rparr> = 100 * sqrt 60 \<and>
   getVolatilityPerMinute \<lparr> q_priceHistory = sameInstantHistory \<rparr>
     \<noteq> claimedVolatility sameInstantHistory"
proof -
  have span: "observedSpanSeconds sameInstantHistory = 0"
    by (simp add: observedSpanSeconds_def sameInstantHistory_def)
  have len: "length sameInstantHistory = 5" by (simp add: sameInstantHistory_def)
  have cl: "claimedVolatility sameInstantHistory = 5"
    by (simp add: claimedVolatility_def span len)
  have "1 < sqrt 60" by simp
  then have "(5::real) < 100 * sqrt 60" by linarith
  with span cl sameInstant_code show ?thesis by simp
qed

text \<open>
  Claim C9, amended: \<open>getVolatilityPerMinute\<close> returns exactly 10 when the history holds fewer
  than 5 samples, and otherwise \<open>max 5 (\<sigma> * sqrt ticks_per_minute)\<close>, where \<open>\<sigma>\<close> is the population
  standard deviation of the first differences of the sampled prices and \<open>ticks_per_minute\<close> is
  \<open>(n / span) * 60\<close> when the observed span in seconds is positive and 60 otherwise (\<open>n\<close> the
  number of samples); in all cases the result is at least 5.
\<close>

theorem getVolatilityPerMinute_formula:
  "getVolatilityPerMinute q =
     (if length (q_priceHistory q) < 5 then 10
      else max 5 (populationStdDev (firstDifferences (q_priceHistory q))
                  * sqrt (if observedSpanSeconds (q_priceHistory q) > 0
                          then (real (length (q_priceHistory q))
                                / observedSpanSeconds (q_priceHistory q)) * 60
                          else 60))) \<and>
   getVolatilityPerMinute q \<ge> 5"
proof -
  have "getVolatilityPerMinute q \<ge> 5"
    unfolding getVolatilityPerMinute_unfold[of q] by simp
  with getVolatilityPerMinute_unfold[of q] show ?thesis by blast
qed

section \<open>Configuration: theorems\<close>

text \<open>
  Claim C8 says that the loader selects paper mode when \<open>PAPER_TRADE\<close> is absent. It does not:
  \<open>process.env.PAPER_TRADE === 'true'\<close> is false for an absent variable, so \<open>loadConfig\<close> selects
  live mode. With no variable set at all, \<open>validateConfig\<close> then reports the missing signer key
  (the process exits with code 1); with the signer key and proxy address set and
  \<open>PAPER_TRADE\<close> absent, the two live-mode checks pass and the mode stays live. Only the
  exact string \<open>true\<close> selects paper mode.
\<close>

theorem loadConfig_PAPER_TRADE_absent:
  "PAPER_TRADE (loadConfig parseFloat parseInt Map.empty) = False \<and>
   ''SIGNER_PRIVATE_KEY is required for live trading''
     \<in> set (validateConfig (loadConfig parseFloat parseInt Map.empty)) \<and>
   PAPER_TRADE (loadConfig parseFloat parseInt
      [''SIGNER_PRIVATE_KEY'' \<mapsto> ''0x01'', ''PROXY_ADDRESS'' \<mapsto> ''0x02'']) = False \<and>
   ''SIGNER_PRIVATE_KEY is required for live trading''
     \<notin> set (validateConfig (loadConfig parseFloat parseInt
      [''SIGNER_PRIVATE_KEY'' \<mapsto> ''0x01'', ''PROXY_ADDRESS'' \<mapsto> ''0x02''])) \<and>
   ''PROXY_ADDRESS is required for live trading''
     \<notin> set (validateConfig (loadConfig parseFloat parseInt
      [''SIGNER_PRIVATE_KEY'' \<mapsto> ''0x01'', ''PROXY_ADDRESS'' \<mapsto> ''0x02''])) \<and>
   PAPER_TRADE (loadConfig parseFloat parseInt [''PAPER_TRADE'' \<mapsto> ''true'']) = True"
  by (simp add: loadConfig_def validateConfig_def envOr_def ZERO_KEY_def ZERO_ADDRESS_def Let_def)

section \<open>Strategy: lemmas and theorems\<close>

subsection \<open>Evaluation on concrete states\<close>

lemmas strategy_eval =
  shouldEnterTrade_def executeTrade_def recordEntry_def hasPendingTrades_def newStrategy_def
  newSessionState_def newCircuitBreaker_def newQuantEngine_def newPriceHistory_def
  updateOrderStatus_def circuitBreakerPhase_def monitorPosition_def exitPosition_def
  holdToMaturityCheck_def
  settlePending_def findPendingSell_def storedStopDistance_def breakEvenFlag_def
  checkCircuitBreaker_def triggerCircuitBreaker_def updateSessionPnL_def
  isInKillZone_def setKey_def deleteKey_def round4_def doNotTrade_def
  isOrderFilled_def getPaperCash_def tickWithinMarket_def tickStatus_def tickPaperFills_def
  bookAt_def pricesAt_def marketUpDown_def

lemmas history_eval =
  updatePrice_def updatePriceHistory_def pushBounded_def MAX_HISTORY_LENGTH_def

lemmas example_records = buy070_def sell072_def stop063_def

lemma entryTick_state:
  "entryTick =
     \<lparr> executionGateway =
         \<lparr> paperCash = 18.00003,
           paperPositions = [''UP'' \<mapsto> \<lparr> p_tokenId = ''UP'', p_shares = 2.8571,
                                          p_entryPrice = 0.70, p_entryTime = 500 \<rparr>],
           paperOrders = [(''PAPER_1'', \<lparr> o_id = ''PAPER_1'', o_tokenId = ''UP'', o_side = SELL,
                                          o_price = 0.72, o_size = 2.8571, o_timestamp = 500 \<rparr>)],
           filledPaperOrders = {''PAPER_FOK_0''}, paperOrderCounter = 2,
           isExecutingTrade = False \<rparr>,
       quantEngine = \<lparr> q_priceHistory = [\<lparr> pp_price = 89800, pp_timestamp = 500 \<rparr>] \<rparr>,
       tradeRecords = [(''trade_0'', buy070), (''trade_1'', sell072)],
       activePositions = [''trade_0''], orderCounter = 2, isTradingLocked = True,
       circuitBreaker = newCircuitBreaker\<lparr> lastTradeTime := 500 \<rparr>,
       sessionState = newSessionState 0,
       s_priceHistory = \<lparr> upBids = [0.69], downBids = [0.30], maxSize = 5 \<rparr> \<rparr>"
  apply (simp add: entryTick_def example_records)
  apply (simp add: strategy_eval history_eval gateway_eval defaultConfig_def showNat_digit)
  done

lemma afterTrigger_state:
  "afterTrigger = entryTick\<lparr> tradeRecords :=
      [(''trade_0'', buy070\<lparr> r_breakEvenTriggered := Some True, r_fixedStopDist := Some 0 \<rparr>),
       (''trade_1'', sell072)] \<rparr>"
  apply (simp add: afterTrigger_def entryTick_state)
  apply (simp add: example_records strategy_eval gateway_eval defaultConfig_def)
  done

text \<open>
  Claim C1 says that once the breakeven trigger has fired, every later monitor evaluation in
  \<open>updateOrderStatus\<close> takes the entry price for the stop price, so that a bid below the entry
  exits. The trigger does store \<open>fixedStopDist = 0\<close> on the record, but the monitor reads the
  stored distance by \<open>if (activePosition.fixedStopDist)\<close>, a test that is false for 0 as it is
  for \<open>undefined\<close>, and falls back to \<open>FIXED_STOP_LOSS\<close>: that is the distance the monitor
  reads from every record whose stored distance is 0. For the position of \<open>entryTick\<close> (entry 0.70): after a bid of 0.716
  the record carries \<open>breakEvenTriggered = true\<close> and \<open>fixedStopDist = 0\<close>; the stop distance the
  monitor computes for that record is 0.04; and a later bid of 0.695, below the entry, changes
  nothing: the position is still active, its BUY \<open>FILLED\<close> and its SELL \<open>PENDING\<close>.
\<close>

theorem breakeven_stop_not_at_entry:
  "map_of (tradeRecords afterTrigger) ''trade_0''
     = Some (buy070\<lparr> r_breakEvenTriggered := Some True, r_fixedStopDist := Some 0 \<rparr>) \<and>
   r_price buy070 = 0.70 \<and>
   storedStopDistance cfg (activePosition\<lparr> r_fixedStopDist := Some 0 \<rparr>)
     = FIXED_STOP_LOSS cfg \<and>
   storedStopDistance defaultConfig
     (buy070\<lparr> r_breakEvenTriggered := Some True, r_fixedStopDist := Some 0 \<rparr>) = 0.04 \<and>
   afterRetrace = afterTrigger \<and>
   activePositions afterRetrace = [''trade_0''] \<and>
   map (r_status \<circ> snd) (tradeRecords afterRetrace) = [FILLED, PENDING]"
  apply (simp add: afterRetrace_def afterTrigger_state entryTick_state)
  apply (simp add: example_records strategy_eval gateway_eval defaultConfig_def)
  done

text \<open>
  Claim C7 says that \<open>shouldEnterTrade\<close> answers "do not trade" when the cash is below
  \<open>MIN_ORDER_SIZE\<close> and every other gate passes. The cash test of \<open>hasPendingTrades\<close> compares
  the cash with a tenth of itself, which no non-negative amount is below: on a fresh strategy
  \<open>hasPendingTrades\<close> holds iff the bankroll is negative. With cash 0.50,
  \<open>MIN_ORDER_SIZE = 1\<close>, an unlocked session, the breaker off, an empty ledger and no active
  position, \<open>hasPendingTrades\<close> is false and \<open>shouldEnterTrade\<close> answers "trade \<open>UP\<close>"; it is
  \<open>executeTrade\<close> that then declines the order.
\<close>

theorem shouldEnterTrade_low_cash:
  "hasPendingTrades (newStrategy cfg now) = (BANKROLL cfg < 0) \<and>
   getPaperCash (executionGateway poorStrategy) = 0.5 \<and>
   MIN_ORDER_SIZE lowCashConfig = 1 \<and>
   isSessionLocked (sessionState poorStrategy) = False \<and>
   isCoolingDown (circuitBreaker poorStrategy) = False \<and>
   tradeRecords poorStrategy = [] \<and> activePositions poorStrategy = [] \<and>
   hasPendingTrades poorStrategy = False \<and>
   fst (shouldEnterTrade lowCashConfig 1000 89800 89750 400 (Some (pricesAt 0.70 0.69))
          poorStrategy)
     = \<lparr> shouldTrade = True, direction = Some UP \<rparr> \<and>
   fst (executeTrade lowCashConfig (bookAt 0.70 0.69) 1000 marketUpDown UP
          (snd (shouldEnterTrade lowCashConfig 1000 89800 89750 400 (Some (pricesAt 0.70 0.69))
                  poorStrategy)))
     = None"
proof -
  have "hasPendingTrades (newStrategy cfg now) = (BANKROLL cfg < 0)"
    by (simp add: hasPendingTrades_def newStrategy_def newExecutionGateway_def getPaperCash_def)
  then show ?thesis
    by (simp add: poorStrategy_def lowCashConfig_def strategy_eval history_eval gateway_eval
        defaultConfig_def)
qed

subsection \<open>Market rotation\<close>

text \<open>
  Claim C6, as stated: after a rotation the 60-sample ring of the quant engine is empty.
  \<open>resetForNewMarket\<close> does not touch the engine, and the engine has no method that clears its
  ring: rotating after \<open>entryTick\<close> leaves the sample of that tick in the ring.
\<close>

theorem resetForNewMarket_quant_ring_counterexample:
  "q_priceHistory (quantEngine (resetForNewMarket defaultConfig 2000 entryTick))
     = [\<lparr> pp_price = 89800, pp_timestamp = 500 \<rparr>]"
  by (simp add: resetForNewMarket_def entryTick_state)

text \<open>
  Claim C6, amended: after a rotation (\<open>resetForNewMarket\<close>, which calls \<open>clearAllState\<close>) the
  trade records, the active positions, the trading lock, the circuit breaker, the session
  state (P&L 0, unlocked, started now), the strategy's bid histories, and the gateway's open
  orders, positions and filled index are empty or at their defaults; the quant engine, and
  with it its 60-sample ring, is as it was before the rotation.
\<close>

theorem resetForNewMarket_defaults:
  "tradeRecords (resetForNewMarket cfg now s) = [] \<and>
   activePositions (resetForNewMarket cfg now s) = [] \<and>
   isTradingLocked (resetForNewMarket cfg now s) = False \<and>
   circuitBreaker (resetForNewMarket cfg now s) = newCircuitBreaker \<and>
   sessionState (resetForNewMarket cfg now s) = newSessionState now \<and>
   sessionPnL (sessionState (resetForNewMarket cfg now s)) = 0 \<and>
   isSessionLocked (sessionState (resetForNewMarket cfg now s)) = False \<and>
   s_priceHistory (resetForNewMarket cfg now s) = newPriceHistory cfg \<and>
   paperOrders (executionGateway (resetForNewMarket cfg now s)) = [] \<and>
   paperPositions (executionGateway (resetForNewMarket cfg now s)) = Map.empty \<and>
   filledPaperOrders (executionGateway (resetForNewMarket cfg now s)) = {} \<and>
   quantEngine (resetForNewMarket cfg now s) = quantEngine s"
  by (simp add: resetForNewMarket_def clearAllState_def newCircuitBreaker_def
      newSessionState_def newPriceHistory_def)

subsection \<open>The circuit breaker\<close>

text \<open>
  What the status update of a tick may do to the ledger: it adds SELL records and changes the
  status of SELL records, the stop distance and the breakeven flag of BUY records; it creates
  no \<open>FILLED\<close> BUY. The only step that could turn a \<open>PENDING\<close> BUY into a \<open>FILLED\<close> one never
  finds one, since \<open>executeTrade\<close> records its BUY as \<open>FILLED\<close> at once.
\<close>

lemma ledgerQuiet_refl [simp]: "ledgerQuiet recs recs"
  by (simp add: ledgerQuiet_def)


lemma stepQuiet_refl [simp]: "stepQuiet s s"
  by (simp add: stepQuiet_def)






lemma sell_not_buy [simp]:
  "r_side r = SELL \<Longrightarrow> \<not> isPendingBuy (r\<lparr> r_status := st \<rparr>)"
  "r_side r = SELL \<Longrightarrow> \<not> isFilledBuy (r\<lparr> r_status := st \<rparr>)"
  "r_side r = SELL \<Longrightarrow> \<not> isPendingBuy (r\<lparr> r_status := st, r_exitType := e \<rparr>)"
  "r_side r = SELL \<Longrightarrow> \<not> isFilledBuy (r\<lparr> r_status := st, r_exitType := e \<rparr>)"
  by (simp_all add: isPendingBuy_def isFilledBuy_def)











lemma circuitBreakerPhase_records [simp]: "tradeRecords (circuitBreakerPhase cfg b now s) = tradeRecords s"
  by (simp add: circuitBreakerPhase_def split: option.splits)









lemma executeTrade_cooling:
  "isCoolingDown (circuitBreaker s) \<Longrightarrow> snd (executeTrade cfg getOrderBook now mi dir s) = s"
  by (simp add: executeTrade_def)






text \<open>The session of \<open>entryTick\<close>, \<open>crashTick\<close> and \<open>coolingRun\<close>, evaluated.\<close>

lemma crashTick_state:
  "crashTick = coolingState 0
      \<lparr> q_priceHistory = [\<lparr> pp_price = 89800, pp_timestamp = 500 \<rparr>,
                           \<lparr> pp_price = 89800, pp_timestamp = 1000 \<rparr>] \<rparr>
      \<lparr> upBids = [0.69, 0.65], downBids = [0.30, 0.34], maxSize = 5 \<rparr>"
  apply (simp add: crashTick_def entryTick_state buy070_def sell072_def stop063_def coolingState_def)
  apply (simp add: strategy_eval history_eval gateway_eval defaultConfig_def showNat_digit)
  done





lemma coolingState_facts:
  "isCoolingDown (circuitBreaker (coolingState k q ph))"
  "filledBuyIds (coolingState k q ph) = {''trade_0''}"
  by (simp_all add: coolingState_def filledBuyIds_def fbIds_def isFilledBuy_def buy070_def
      sell072_def stop063_def)



text \<open>
  A tick that rotates the market is outside the guarantee as well: \<open>resetForNewMarket\<close> clears
  the breaker with the ledger, whatever the time and the counter, and the rest of that tick may
  enter. Right after the stop-loss, a rotation at 1500 ms followed by the rest of the tick buys
  \<open>trade_3\<close>.
\<close>

lemma rotating_tick_enters:
  "isCoolingDown (circuitBreaker (coolingRun 0)) \<and>
   filledBuyIds (coolingRun 0) = {''trade_0''} \<and>
   \<not> isCoolingDown (circuitBreaker (resetForNewMarket defaultConfig 1500 (coolingRun 0))) \<and>
   filledBuyIds (tickWithinMarket defaultConfig (bookAt 0.70 0.69) 1500 marketUpDown 89800 89750
                   (Some (pricesAt 0.70 0.69)) 398.5
                   (resetForNewMarket defaultConfig 1500 (coolingRun 0))) = {''trade_3''}"
proof -
  have st: "coolingRun 0 = coolingState 0
      \<lparr> q_priceHistory = [\<lparr> pp_price = 89800, pp_timestamp = 500 \<rparr>,
                           \<lparr> pp_price = 89800, pp_timestamp = 1000 \<rparr>] \<rparr>
      \<lparr> upBids = [0.69, 0.65], downBids = [0.30, 0.34], maxSize = 5 \<rparr>"
    using crashTick_state by simp
  have c: "isCoolingDown (circuitBreaker (coolingRun 0))"
    and f: "filledBuyIds (coolingRun 0) = {''trade_0''}"
    unfolding st by (rule coolingState_facts)+
  have r: "\<not> isCoolingDown (circuitBreaker (resetForNewMarket defaultConfig 1500 (coolingRun 0)))"
    by (simp add: resetForNewMarket_def)
  have e: "filledBuyIds (tickWithinMarket defaultConfig (bookAt 0.70 0.69) 1500 marketUpDown
                   89800 89750 (Some (pricesAt 0.70 0.69)) 398.5
                   (resetForNewMarket defaultConfig 1500 (coolingRun 0))) = {''trade_3''}"
    unfolding st
    apply (simp add: coolingState_def buy070_def sell072_def stop063_def resetForNewMarket_def
        clearAllState_def)
    apply (simp add: strategy_eval history_eval gateway_eval defaultConfig_def showNat_digit
        filledBuyIds_def fbIds_def isFilledBuy_def)
    done
  from c f r e show ?thesis by simp
qed



end
